theory Spec2Isabelle
  imports Main "HOL-Library.Sublist" "HOL-Library.AList"
begin

section \<open>Python values and the built-ins the client uses\<close>

text \<open>
  The client in \<^verbatim>\<open>amazon_pay/report_client.py\<close> handles its arguments dynamically:
  it tests them with \<^verbatim>\<open>is None\<close>, \<^verbatim>\<open>is not False\<close> and
  \<^verbatim>\<open>not in ['', None]\<close>, and renders them with \<^verbatim>\<open>str\<close> and
  \<^verbatim>\<open>format\<close>. Arguments are therefore scalar Python values. A string is a
  list of bytes, so only ASCII text is rendered as Python renders it.
\<close>

datatype pyval = PNone | PBool bool | PInt int | PStr string

text \<open>Exceptions, as values. \<open>AttributeError t n\<close>: an object of type \<open>t\<close> has no
  attribute \<open>n\<close>. \<open>Raised\<close>: an exception coming out of a library or collaborator call.\<close>

datatype error =
    ValueError string
  | KeyError string
  | AttributeError string string
  | Raised string

fun truthy :: "pyval \<Rightarrow> bool" where
  "truthy PNone = False"
| "truthy (PBool b) = b"
| "truthy (PInt i) = (i \<noteq> 0)"
| "truthy (PStr s) = (s \<noteq> [])"

fun type_name :: "pyval \<Rightarrow> string" where
  "type_name PNone = ''NoneType''"
| "type_name (PBool b) = ''bool''"
| "type_name (PInt i) = ''int''"
| "type_name (PStr s) = ''str''"

definition digit_char :: "nat \<Rightarrow> char" where
  "digit_char d = ''0123456789'' ! d"

fun dec :: "nat \<Rightarrow> string" where
  "dec n = (if n < 10 then [digit_char n] else dec (n div 10) @ [digit_char (n mod 10)])"

declare dec.simps [simp del]

text \<open>
  CPython refuses to convert an int of more than
  \<^verbatim>\<open>sys.int_info.default_max_str_digits\<close> decimal digits to a string, unless the
  limit has been changed: the conversion raises a \<^verbatim>\<open>ValueError\<close>. The model has
  the default limit.
\<close>

definition int_max_str_digits :: nat where
  "int_max_str_digits = 4300"

text \<open>\<^verbatim>\<open>str(x)\<close>, which is also what \<^verbatim>\<open>'{}'.format(x)\<close> inserts for these types.\<close>

fun py_str :: "pyval \<Rightarrow> error + string" where
  "py_str PNone = Inr ''None''"
| "py_str (PBool b) = Inr (if b then ''True'' else ''False'')"
| "py_str (PInt i) =
     (if int_max_str_digits < length (dec (nat \<bar>i\<bar>))
      then Inl (ValueError ''Exceeds the limit (4300 digits) for integer string conversion; use sys.set_int_max_str_digits() to increase the limit'')
      else Inr (if i < 0 then ''-'' @ dec (nat (- i)) else dec (nat i)))"
| "py_str (PStr s) = Inr s"

text \<open>\<^verbatim>\<open>map(str, xs)\<close> as \<^verbatim>\<open>join\<close> consumes it: the first conversion that raises ends it.\<close>

fun map_str :: "pyval list \<Rightarrow> error + string list" where
  "map_str [] = Inr []"
| "map_str (v # vs) =
     (case py_str v of
        Inl e \<Rightarrow> Inl e
      | Inr s \<Rightarrow> (case map_str vs of Inl e \<Rightarrow> Inl e | Inr ss \<Rightarrow> Inr (s # ss)))"

text \<open>\<^verbatim>\<open>sep.join(xs)\<close>.\<close>

fun join :: "string \<Rightarrow> string list \<Rightarrow> string" where
  "join sep [] = []"
| "join sep [x] = x"
| "join sep (x # y # ys) = x @ sep @ join sep (y # ys)"

text \<open>\<^verbatim>\<open>s.upper()\<close> on ASCII letters; other bytes are kept.\<close>

definition upper_char :: "char \<Rightarrow> char" where
  "upper_char c =
     (case map_of (zip ''abcdefghijklmnopqrstuvwxyz'' ''ABCDEFGHIJKLMNOPQRSTUVWXYZ'') c of
        None \<Rightarrow> c
      | Some u \<Rightarrow> u)"

definition upper :: "string \<Rightarrow> string" where
  "upper s = map upper_char s"

section \<open>Tables, host and constructor arguments\<close>

text \<open>
  Modelled from the spec: the modules \<^verbatim>\<open>amazon_pay.ap_region\<close> and
  \<^verbatim>\<open>amazon_pay.report_version\<close> are not part of the sources at hand. The spec
  calls the first a static lookup table from region codes to host names and the second
  the fixed API name and version. They are parameters of the model: \<open>regions\<close> is the
  table \<^verbatim>\<open>ap_region.regions\<close>, and the three strings are the entries
  \<^verbatim>\<open>api_version\<close>, \<^verbatim>\<open>api_name\<close> and \<^verbatim>\<open>application_version\<close> of
  \<^verbatim>\<open>ap_version.versions\<close>.
\<close>

record tables =
  regions :: "string \<rightharpoonup> string"
  ver_api_version :: string
  ver_api_name :: string
  ver_application_version :: string

text \<open>
  What the constructor reads from the interpreter and the standard library:
  \<^verbatim>\<open>os.environ\<close>, \<^verbatim>\<open>sys.version_info\<close>, \<^verbatim>\<open>platform.system()\<close>,
  \<^verbatim>\<open>platform.release()\<close>, the attributes of the \<^verbatim>\<open>logging\<close> module
  (\<open>logging_attr n\<close> is \<^verbatim>\<open>getattr(logging, n, None)\<close>), and whether
  \<^verbatim>\<open>setLevel\<close> and \<^verbatim>\<open>logging.FileHandler\<close> raise on a given argument.
\<close>

record host =
  environ :: "string \<rightharpoonup> string"
  version_info :: "pyval list"
  platform_system :: string
  platform_release :: string
  logging_attr :: "string \<Rightarrow> pyval"
  set_level_raises :: "pyval \<Rightarrow> error option"
  file_handler_raises :: "pyval \<Rightarrow> error option"

text \<open>The arguments of \<^verbatim>\<open>ReportClient.__init__\<close>; an omitted argument has its default.\<close>

record init_args =
  arg_mws_access_key :: pyval
  arg_mws_secret_key :: pyval
  arg_merchant_id :: pyval
  arg_region :: pyval
  arg_currency_code :: pyval
  arg_sandbox :: pyval
  arg_handle_throttle :: pyval
  arg_application_name :: pyval
  arg_application_version :: pyval
  arg_log_enabled :: pyval
  arg_log_file_name :: pyval
  arg_log_level :: pyval

definition default_args :: init_args where
  "default_args =
     \<lparr> arg_mws_access_key = PNone, arg_mws_secret_key = PNone, arg_merchant_id = PNone,
       arg_region = PNone, arg_currency_code = PNone, arg_sandbox = PBool False,
       arg_handle_throttle = PBool True, arg_application_name = PNone,
       arg_application_version = PNone, arg_log_enabled = PBool False,
       arg_log_file_name = PNone, arg_log_level = PNone \<rparr>"

text \<open>The class attribute \<^verbatim>\<open>logger\<close>, shared by all clients: its level and handlers.\<close>

datatype handler = NullHandler | FileHandler pyval pyval | StreamHandler pyval

record logger =
  logger_level :: pyval
  logger_handlers :: "handler list"

definition class_logger :: logger where
  "class_logger = \<lparr> logger_level = PInt 0, logger_handlers = [NullHandler] \<rparr>"

section \<open>The client object\<close>

text \<open>
  The attributes of a \<^verbatim>\<open>ReportClient\<close>. A leading underscore of the source is
  written \<open>p_\<close>. \<open>client_core\<close> holds the attributes assigned up to the first
  call of \<^verbatim>\<open>_set_endpoint\<close>; the user agent and the headers are assigned after the
  logging set-up, which can raise, and extend it.
\<close>

record client_core =
  mws_access_key :: pyval
  mws_secret_key :: pyval
  merchant_id :: pyval
  region :: pyval
  currency_code :: pyval
  p_region :: string
  p_region_code :: pyval
  handle_throttle :: pyval
  application_name :: pyval
  application_version :: pyval
  p_sandbox :: pyval
  p_api_version :: string
  p_api_name :: string
  p_application_library_version :: string
  p_mws_endpoint :: pyval

record report_client = client_core +
  p_user_agent :: string
  p_headers :: "(string \<times> string) list"

text \<open>\<^verbatim>\<open>_set_endpoint\<close> (lines 186-190).\<close>

definition set_endpoint :: "'a client_core_scheme \<Rightarrow> 'a client_core_scheme" where
  "set_endpoint self =
     self\<lparr> p_mws_endpoint :=
       PStr (''https://'' @ p_region self @ ''/'' @ p_api_name self @ ''/'' @ p_api_version self) \<rparr>"

text \<open>The property \<^verbatim>\<open>sandbox\<close>: getter (lines 176-178) and setter (lines 180-184).\<close>

definition sandbox :: "'a client_core_scheme \<Rightarrow> pyval" where
  "sandbox self = p_sandbox self"

definition sandbox_setter :: "'a client_core_scheme \<Rightarrow> pyval \<Rightarrow> 'a client_core_scheme" where
  "sandbox_setter self v = set_endpoint (self\<lparr> p_sandbox := v \<rparr>)"

section \<open>Construction\<close>

text \<open>
  The keys of \<^verbatim>\<open>env_param_map\<close> (lines 96-100) are the names of five arguments;
  \<open>eval_param\<close> is \<^verbatim>\<open>eval(param)\<close> on them. The mapping is a dict literal, so the
  loop visits the keys in the order written.
\<close>

datatype param = Mws_access_key | Mws_secret_key | Merchant_id | Region | Currency_code

fun param_name :: "param \<Rightarrow> string" where
  "param_name Mws_access_key = ''mws_access_key''"
| "param_name Mws_secret_key = ''mws_secret_key''"
| "param_name Merchant_id = ''merchant_id''"
| "param_name Region = ''region''"
| "param_name Currency_code = ''currency_code''"

definition env_param_map :: "(param \<times> string) list" where
  "env_param_map =
     [(Mws_access_key, ''AP_MWS_ACCESS_KEY''),
      (Mws_secret_key, ''AP_MWS_SECRET_KEY''),
      (Merchant_id, ''AP_MERCHANT_ID''),
      (Region, ''AP_REGION''),
      (Currency_code, ''AP_CURRENCY_CODE'')]"

fun eval_param :: "init_args \<Rightarrow> param \<Rightarrow> pyval" where
  "eval_param a Mws_access_key = arg_mws_access_key a"
| "eval_param a Mws_secret_key = arg_mws_secret_key a"
| "eval_param a Merchant_id = arg_merchant_id a"
| "eval_param a Region = arg_region a"
| "eval_param a Currency_code = arg_currency_code a"

text \<open>
  The body of the loop (lines 102-108): the value stored with \<^verbatim>\<open>setattr\<close>, or the
  \<^verbatim>\<open>ValueError\<close> raised when the argument is \<^verbatim>\<open>None\<close> and reading the
  environment variable fails.
\<close>

definition resolve_param :: "init_args \<Rightarrow> (string \<rightharpoonup> string) \<Rightarrow> param \<Rightarrow> string \<Rightarrow> error + pyval" where
  "resolve_param a env param var =
     (if eval_param a param = PNone then
        (case env var of
           None \<Rightarrow> Inl (ValueError (''Invalid '' @ param_name param @ ''.''))
         | Some s \<Rightarrow> Inr (PStr s))
      else Inr (eval_param a param))"

text \<open>
  The loop of lines 101-108. It returns the values stored, in the order of the keys, or
  the exception of the first key whose body raises.
\<close>

fun resolve_params :: "init_args \<Rightarrow> (string \<rightharpoonup> string) \<Rightarrow> (param \<times> string) list \<Rightarrow> error + pyval list" where
  "resolve_params a env [] = Inr []"
| "resolve_params a env ((param, var) # rest) =
     (case resolve_param a env param var of
        Inl e \<Rightarrow> Inl e
      | Inr v \<Rightarrow>
          (case resolve_params a env rest of
             Inl e \<Rightarrow> Inl e
           | Inr vs \<Rightarrow> Inr (v # vs)))"

text \<open>
  The handler of line 115: it formats the region code into the message of the
  \<^verbatim>\<open>KeyError\<close> it raises; a code that cannot be formatted raises from
  \<^verbatim>\<open>format\<close> instead.
\<close>

definition invalid_region :: "pyval \<Rightarrow> error + string" where
  "invalid_region v =
     (case py_str v of
        Inl e \<Rightarrow> Inl e
      | Inr s \<Rightarrow> Inl (KeyError (''Invalid region code ('' @ s @ '')'')))"

text \<open>
  \<^verbatim>\<open>ap_region.regions[self.region]\<close> (lines 110-115). The keys of the table are
  strings, so a value that is not a string is not a key.
\<close>

fun lookup_region :: "tables \<Rightarrow> pyval \<Rightarrow> error + string" where
  "lookup_region T (PStr code) =
     (case regions T code of
        None \<Rightarrow> invalid_region (PStr code)
      | Some h \<Rightarrow> Inr h)"
| "lookup_region T v = invalid_region v"

text \<open>The logging set-up of lines 133-145, on the shared logger.\<close>

definition configure_logging :: "host \<Rightarrow> pyval \<Rightarrow> pyval \<Rightarrow> pyval \<Rightarrow> logger \<Rightarrow> error + logger" where
  "configure_logging H log_enabled log_file_name log_level lg =
     (if log_enabled \<noteq> PBool False then
        (case log_level of
           PStr s \<Rightarrow>
             (let numeric_level = logging_attr H (upper s) in
              if numeric_level \<noteq> PNone then
                (if log_file_name \<noteq> PNone then
                   (case set_level_raises H numeric_level of
                      Some e \<Rightarrow> Inl e
                    | None \<Rightarrow>
                        (case file_handler_raises H log_file_name of
                           Some e \<Rightarrow> Inl e
                         | None \<Rightarrow>
                             Inr \<lparr> logger_level = numeric_level,
                                   logger_handlers =
                                     logger_handlers lg @ [FileHandler log_file_name numeric_level] \<rparr>))
                 else
                   (case set_level_raises H numeric_level of
                      Some e \<Rightarrow> Inl e
                    | None \<Rightarrow>
                        Inr \<lparr> logger_level = numeric_level,
                              logger_handlers = logger_handlers lg @ [StreamHandler numeric_level] \<rparr>))
              else Inr lg)
         | _ \<Rightarrow> Inl (AttributeError (type_name log_level) ''upper''))
      else Inr lg)"

text \<open>
  Lines 147-158: the application part of the user agent. \<^verbatim>\<open>str\<close> is called on
  the name and on the version only where they are not in \<^verbatim>\<open>['', None]\<close>.
\<close>

definition app_name_and_ver :: "pyval \<Rightarrow> pyval \<Rightarrow> error + string" where
  "app_name_and_ver app_name app_version =
     (case
        (if app_name \<notin> set [PStr [], PNone] then
           (case py_str app_name of
              Inl e \<Rightarrow> Inl e
            | Inr sn \<Rightarrow>
                (if app_version \<notin> set [PStr [], PNone] then
                   (case py_str app_version of
                      Inl e \<Rightarrow> Inl e
                    | Inr sv \<Rightarrow> Inr ([] @ sn @ ''/'' @ sv))
                 else Inr ([] @ sn)))
         else if app_version \<notin> set [PStr [], PNone] then
           (case py_str app_version of
              Inl e \<Rightarrow> Inl e
            | Inr sv \<Rightarrow> Inr ([] @ sv))
         else Inr [])
      of
        Inl e \<Rightarrow> Inl e
      | Inr s \<Rightarrow>
          Inr (if app_name \<notin> set [PStr [], PNone] \<or> app_version \<notin> set [PStr [], PNone]
               then s @ ''; '' else s))"

text \<open>Line 160: \<^verbatim>\<open>".".join(map(str, sys.version_info[:3]))\<close>.\<close>

definition current_py_ver :: "host \<Rightarrow> error + string" where
  "current_py_ver H =
     (case map_str (take 3 (version_info H)) of
        Inl e \<Rightarrow> Inl e
      | Inr ss \<Rightarrow> Inr (join ''.'' ss))"

text \<open>Lines 147-168: the application part, then the interpreter version, then the template.\<close>

definition user_agent :: "host \<Rightarrow> string \<Rightarrow> pyval \<Rightarrow> pyval \<Rightarrow> error + string" where
  "user_agent H library_version app_name app_version =
     (case app_name_and_ver app_name app_version of
        Inl e \<Rightarrow> Inl e
      | Inr app \<Rightarrow>
          (case current_py_ver H of
             Inl e \<Rightarrow> Inl e
           | Inr ver \<Rightarrow>
               Inr (''amazon-pay-sdk-python/'' @ library_version @ '' ('' @ app
                      @ ''Python/'' @ ver @ ''; '' @ platform_system H @ ''/''
                      @ platform_release H @ '')'')))"

text \<open>
  \<^verbatim>\<open>ReportClient.__init__\<close> (lines 23-174), from the values the loop stored. The
  last equation stands for a loop that stored fewer attributes than the constructor
  reads afterwards.
\<close>

fun init_from :: "tables \<Rightarrow> host \<Rightarrow> init_args \<Rightarrow> logger \<Rightarrow> pyval list \<Rightarrow> error + (report_client \<times> logger)" where
  "init_from T H a lg [ak, sk, mid, reg, cc] =
     (case lookup_region T reg of
        Inl e \<Rightarrow> Inl e
      | Inr h \<Rightarrow>
          (let self = set_endpoint
                 \<lparr> mws_access_key = ak, mws_secret_key = sk, merchant_id = mid, region = reg,
                   currency_code = cc, p_region = h, p_region_code = reg,
                   handle_throttle = arg_handle_throttle a,
                   application_name = arg_application_name a,
                   application_version = arg_application_version a,
                   p_sandbox = arg_sandbox a,
                   p_api_version = ver_api_version T,
                   p_api_name = ver_api_name T,
                   p_application_library_version = ver_application_version T,
                   p_mws_endpoint = PNone \<rparr>
           in case configure_logging H (arg_log_enabled a) (arg_log_file_name a) (arg_log_level a) lg of
                Inl e \<Rightarrow> Inl e
              | Inr lg' \<Rightarrow>
                  (case user_agent H (p_application_library_version self)
                          (arg_application_name a) (arg_application_version a) of
                     Inl e \<Rightarrow> Inl e
                   | Inr ua \<Rightarrow>
                       Inr (client_core.extend self
                              (report_client.fields ua
                                 [(''Content-Type'', ''application/x-www-form-urlencoded''),
                                  (''User-Agent'', ua)]),
                            lg'))))"
| "init_from T H a lg vs = Inl (AttributeError ''ReportClient'' ''region'')"

definition ReportClient_init :: "tables \<Rightarrow> host \<Rightarrow> init_args \<Rightarrow> logger \<Rightarrow> error + (report_client \<times> logger)" where
  "ReportClient_init T H a lg =
     (case resolve_params a (environ H) env_param_map of
        Inl e \<Rightarrow> Inl e
      | Inr vs \<Rightarrow> init_from T H a lg vs)"

section \<open>The request collaborator and the operations\<close>

text \<open>
  A Python dict is an association list with distinct keys, in insertion order;
  \<^verbatim>\<open>d[k] = v\<close> is \<open>AList.update k v d\<close>, which replaces the value of a key in
  place and appends a new key. The values of the config mapping are scalars, except
  the headers, a dict of strings.
\<close>

type_synonym params = "(string \<times> pyval) list"

datatype cfgval = CVal pyval | CDict "(string \<times> string) list"

type_synonym config = "(string \<times> cfgval) list"

text \<open>
  Modelled from the spec: the class \<^verbatim>\<open>amazon_pay.report_request.ReportRequest\<close> is
  not part of the sources at hand. The spec describes it as a request object constructed
  from \<^verbatim>\<open>(params, config)\<close> exposing \<^verbatim>\<open>send_post()\<close>, which signs and posts,
  and a \<^verbatim>\<open>response\<close> attribute populated afterward. The class is a parameter:
  \<open>'q\<close> is the state of a request object, \<open>'r\<close> a response; \<open>send_post\<close> returns
  the request as the call leaves it, or the exception the call raises. The collaborator
  is taken to leave the mappings it is handed as they are.
\<close>

record ('q, 'r) request_class =
  new_request :: "params \<Rightarrow> config \<Rightarrow> 'q"
  send_post :: "'q \<Rightarrow> error + 'q"
  response :: "'q \<Rightarrow> 'r"

text \<open>The calls a client makes on the collaborator, in order.\<close>

datatype 'q event = Constructed params config | SendPost 'q

text \<open>The loop of lines 279-281 over the entries of \<^verbatim>\<open>options\<close>.\<close>

fun merge_options :: "params \<Rightarrow> params \<Rightarrow> params" where
  "merge_options params [] = params"
| "merge_options params ((opt, v) # rest) =
     (if v \<noteq> PNone then merge_options (AList.update opt v params) rest
      else merge_options params rest)"

text \<open>The config mapping of lines 285-291.\<close>

definition request_config :: "report_client \<Rightarrow> config" where
  "request_config self =
     [(''mws_access_key'', CVal (mws_access_key self)),
      (''mws_secret_key'', CVal (mws_secret_key self)),
      (''api_version'', CVal (PStr (p_api_version self))),
      (''merchant_id'', CVal (merchant_id self)),
      (''mws_endpoint'', CVal (p_mws_endpoint self)),
      (''headers'', CDict (p_headers self)),
      (''handle_throttle'', CVal (handle_throttle self))]"

text \<open>
  \<^verbatim>\<open>_operation\<close> (lines 274-294). A method runs on the client and on the record of
  collaborator calls, and returns both with its result.
\<close>

definition operation ::
  "('q, 'r) request_class \<Rightarrow> report_client \<Rightarrow> params \<Rightarrow> params option \<Rightarrow> 'q event list
     \<Rightarrow> (error + 'r) \<times> report_client \<times> 'q event list" where
  "operation RC self params options tr =
     (let params1 = (case options of None \<Rightarrow> params | Some opts \<Rightarrow> merge_options params opts);
          request = new_request RC params1 (request_config self);
          tr1 = tr @ [Constructed params1 (request_config self)];
          tr2 = tr1 @ [SendPost request]
      in case send_post RC request of
           Inl e \<Rightarrow> (Inl e, self, tr2)
         | Inr request1 \<Rightarrow> (Inr (response RC request1), self, tr2))"

text \<open>\<^verbatim>\<open>get_report_list\<close> (lines 192-221).\<close>

definition get_report_list ::
  "('q, 'r) request_class \<Rightarrow> report_client \<Rightarrow> pyval \<Rightarrow> pyval \<Rightarrow> pyval \<Rightarrow> pyval \<Rightarrow> pyval \<Rightarrow> pyval
     \<Rightarrow> 'q event list \<Rightarrow> (error + 'r) \<times> report_client \<times> 'q event list" where
  "get_report_list RC self available_from available_to acknowledged report_type_list
       merchant_id' mws_auth_token tr =
     (let parameters = [(''Action'', PStr ''GetReportList'')];
          optionals =
            [(''AvailableFromDate'', available_from),
             (''AvailableToDate'', available_to),
             (''Acknowledged'', acknowledged),
             (''ReportTypeList.Type.1'', report_type_list),
             (''SellerId'', merchant_id'),
             (''MWSAuthToken'', mws_auth_token)]
      in operation RC self parameters (Some optionals) tr)"

text \<open>\<^verbatim>\<open>get_report\<close> (lines 223-244).\<close>

definition get_report ::
  "('q, 'r) request_class \<Rightarrow> report_client \<Rightarrow> pyval \<Rightarrow> pyval \<Rightarrow> pyval
     \<Rightarrow> 'q event list \<Rightarrow> (error + 'r) \<times> report_client \<times> 'q event list" where
  "get_report RC self report_id merchant_id' mws_auth_token tr =
     (let parameters = [(''Action'', PStr ''GetReport''), (''ReportId'', report_id)];
          optionals = [(''SellerId'', merchant_id'), (''MWSAuthToken'', mws_auth_token)]
      in operation RC self parameters (Some optionals) tr)"

text \<open>\<^verbatim>\<open>update_report_acknowledgements\<close> (lines 246-272).\<close>

definition update_report_acknowledgements ::
  "('q, 'r) request_class \<Rightarrow> report_client \<Rightarrow> pyval \<Rightarrow> pyval \<Rightarrow> pyval \<Rightarrow> pyval
     \<Rightarrow> 'q event list \<Rightarrow> (error + 'r) \<times> report_client \<times> 'q event list" where
  "update_report_acknowledgements RC self report_id acknowledged merchant_id' mws_auth_token tr =
     (let parameters =
            [(''Action'', PStr ''UpdateReportAcknowledgements''),
             (''ReportIdList.Id.1'', report_id),
             (''Acknowledged'', acknowledged)];
          optionals = [(''SellerId'', merchant_id'), (''MWSAuthToken'', mws_auth_token)]
      in operation RC self parameters (Some optionals) tr)"

text \<open>The parameter mapping of the last request constructed.\<close>

fun sent_params :: "'q event list \<Rightarrow> params option" where
  "sent_params [] = None"
| "sent_params (Constructed ps cfg # evs) =
     (case sent_params evs of None \<Rightarrow> Some ps | Some ps1 \<Rightarrow> Some ps1)"
| "sent_params (SendPost q # evs) = sent_params evs"

section \<open>Sample inputs\<close>

text \<open>
  Concrete inputs on which the definitions are evaluated: a region table with two codes,
  a version table, a host with four environment variables set, and a collaborator whose
  request object is the pair it was constructed from, with the response
  \<^verbatim>\<open>send_post\<close> stored.
\<close>

definition sample_tables :: tables where
  "sample_tables =
     \<lparr> regions = [''na'' \<mapsto> ''mws.amazonservices.com'', ''uk'' \<mapsto> ''mws-eu.amazonservices.com''],
       ver_api_version = ''2009-01-01'',
       ver_api_name = ''Reports'',
       ver_application_version = ''2.7.1'' \<rparr>"

definition sample_host :: host where
  "sample_host =
     \<lparr> environ =
         [''AP_MWS_ACCESS_KEY'' \<mapsto> ''AKIA'', ''AP_MWS_SECRET_KEY'' \<mapsto> ''secret'',
          ''AP_MERCHANT_ID'' \<mapsto> ''M1'', ''AP_CURRENCY_CODE'' \<mapsto> ''USD''],
       version_info = [PInt 3, PInt 11, PInt 4, PStr ''final'', PInt 0],
       platform_system = ''Linux'',
       platform_release = ''5.4.0'',
       logging_attr = (\<lambda>n. if n = ''DEBUG'' then PInt 10 else if n = ''INFO'' then PInt 20 else PNone),
       set_level_raises = (\<lambda>v. case v of PInt i \<Rightarrow> None | _ \<Rightarrow> Some (Raised ''TypeError'')),
       file_handler_raises = (\<lambda>v. case v of PStr f \<Rightarrow> None | _ \<Rightarrow> Some (Raised ''TypeError'')) \<rparr>"

definition sample_args :: init_args where
  "sample_args = default_args\<lparr> arg_region := PStr ''na'' \<rparr>"

definition sample_client :: report_client where
  "sample_client =
     \<lparr> mws_access_key = PStr ''AKIA'', mws_secret_key = PStr ''secret'',
       merchant_id = PStr ''M1'', region = PStr ''na'', currency_code = PStr ''USD'',
       p_region = ''mws.amazonservices.com'', p_region_code = PStr ''na'',
       handle_throttle = PBool True, application_name = PNone, application_version = PNone,
       p_sandbox = PBool False, p_api_version = ''2009-01-01'', p_api_name = ''Reports'',
       p_application_library_version = ''2.7.1'',
       p_mws_endpoint = PStr ''https://mws.amazonservices.com/Reports/2009-01-01'',
       p_user_agent = ''amazon-pay-sdk-python/2.7.1 (Python/3.11.4; Linux/5.4.0)'',
       p_headers =
         [(''Content-Type'', ''application/x-www-form-urlencoded''),
          (''User-Agent'', ''amazon-pay-sdk-python/2.7.1 (Python/3.11.4; Linux/5.4.0)'')] \<rparr>"

definition sample_request_class :: "(params \<times> config \<times> string option, string option) request_class" where
  "sample_request_class =
     \<lparr> new_request = (\<lambda>ps cfg. (ps, cfg, None)),
       send_post = (\<lambda>(ps, cfg, r). Inr (ps, cfg, Some ''<ok/>'')),
       response = (\<lambda>(ps, cfg, r). r) \<rparr>"

text \<open>An int of 4301 decimal digits, one more than the conversion limit.\<close>

definition huge_int :: int where
  "huge_int = 10 ^ 4300"

section \<open>Facts about construction\<close>

text \<open>The loop over the five keys stores five values, one per key, or raises.\<close>

lemma resolve_params_env_param_map:
  "resolve_params a env env_param_map = Inr vs \<longleftrightarrow>
     (\<exists>ak sk mid reg cc.
        vs = [ak, sk, mid, reg, cc] \<and>
        resolve_param a env Mws_access_key ''AP_MWS_ACCESS_KEY'' = Inr ak \<and>
        resolve_param a env Mws_secret_key ''AP_MWS_SECRET_KEY'' = Inr sk \<and>
        resolve_param a env Merchant_id ''AP_MERCHANT_ID'' = Inr mid \<and>
        resolve_param a env Region ''AP_REGION'' = Inr reg \<and>
        resolve_param a env Currency_code ''AP_CURRENCY_CODE'' = Inr cc)"
  by (auto simp: env_param_map_def split: sum.splits)

lemma resolve_param_not_None:
  "resolve_param a env p var = Inr v \<Longrightarrow> v \<noteq> PNone"
  by (auto simp: resolve_param_def split: if_splits option.splits)

text \<open>The loop raises exactly the exception of the first key whose body raises.\<close>

lemma resolve_params_Inl_find:
  "resolve_params a env ps = Inl e \<longleftrightarrow>
     (\<exists>p var. find (\<lambda>(p, var). isl (resolve_param a env p var)) ps = Some (p, var)
        \<and> resolve_param a env p var = Inl e)"
proof (induction ps)
  case Nil
  then show ?case by simp
next
  case (Cons pv ps)
  obtain p var where pv: "pv = (p, var)" by (cases pv)
  show ?case
  proof (cases "resolve_param a env p var")
    case (Inl e')
    then show ?thesis using pv by auto
  next
    case (Inr v)
    then show ?thesis using pv Cons.IH by (auto split: sum.splits)
  qed
qed

text \<open>
  Construction returns a client exactly when the five values resolve, the region is in
  the table and the logging set-up does not raise; the client is then the following.
\<close>

lemma init_Inr_iff:
  "ReportClient_init T H a lg = Inr (c, lg') \<longleftrightarrow>
     (\<exists>ak sk mid reg cc h ua.
        resolve_params a (environ H) env_param_map = Inr [ak, sk, mid, reg, cc] \<and>
        lookup_region T reg = Inr h \<and>
        configure_logging H (arg_log_enabled a) (arg_log_file_name a) (arg_log_level a) lg = Inr lg' \<and>
        user_agent H (ver_application_version T)
          (arg_application_name a) (arg_application_version a) = Inr ua \<and>
        c = \<lparr> mws_access_key = ak, mws_secret_key = sk, merchant_id = mid, region = reg,
              currency_code = cc, p_region = h, p_region_code = reg,
              handle_throttle = arg_handle_throttle a,
              application_name = arg_application_name a,
              application_version = arg_application_version a,
              p_sandbox = arg_sandbox a,
              p_api_version = ver_api_version T,
              p_api_name = ver_api_name T,
              p_application_library_version = ver_application_version T,
              p_mws_endpoint = PStr (''https://'' @ h @ ''/'' @ ver_api_name T @ ''/'' @ ver_api_version T),
              p_user_agent = ua,
              p_headers = [(''Content-Type'', ''application/x-www-form-urlencoded''),
                           (''User-Agent'', ua)] \<rparr>)"
  apply (simp add: ReportClient_init_def split: sum.splits)
  apply (auto simp: resolve_params_env_param_map set_endpoint_def client_core.extend_def
      report_client.fields_def Let_def split: sum.splits)
  done

text \<open>Evaluation of the constructor on the sample inputs.\<close>

lemmas init_eval =
  ReportClient_init_def sample_tables_def sample_host_def sample_args_def default_args_def
  class_logger_def sample_client_def env_param_map_def resolve_param_def set_endpoint_def
  configure_logging_def user_agent_def app_name_and_ver_def current_py_ver_def dec.simps
  digit_char_def int_max_str_digits_def invalid_region_def client_core.extend_def
  report_client.fields_def Let_def

lemma sample_client_constructed:
  "ReportClient_init sample_tables sample_host sample_args class_logger
     = Inr (sample_client, class_logger)"
  by (simp add: init_eval)

text \<open>
  A key raises only after every earlier key has stored its value, and what a key stores
  or raises depends on its argument and its environment variable alone.
\<close>

lemma resolve_params_first_raise:
  assumes "\<forall>(q, w) \<in> set pre. \<exists>v. resolve_param a env q w = Inr v"
    and "resolve_param a env p var = Inl e"
  shows "resolve_params a env (pre @ (p, var) # post) = Inl e"
  using assms
proof (induction pre)
  case Nil
  then show ?case by simp
next
  case (Cons qw pre)
  obtain q w where qw: "qw = (q, w)" by (cases qw)
  from Cons.prems(1) qw obtain v where "resolve_param a env q w = Inr v" by auto
  moreover have "resolve_params a env (pre @ (p, var) # post) = Inl e"
    using Cons by simp
  ultimately show ?case using qw by simp
qed

lemma resolve_param_Inl_iff:
  "resolve_param a env p var = Inl e \<longleftrightarrow>
     eval_param a p = PNone \<and> env var = None \<and> e = ValueError (''Invalid '' @ param_name p @ ''.'')"
  by (auto simp: resolve_param_def split: option.splits)

lemma resolve_param_Inr_iff:
  "resolve_param a env p var = Inr v \<longleftrightarrow>
     (if eval_param a p = PNone then \<exists>s. env var = Some s \<and> v = PStr s else v = eval_param a p)"
  by (auto simp: resolve_param_def split: option.splits)

lemma init_resolve_Inl:
  "resolve_params a (environ H) env_param_map = Inl e \<Longrightarrow> ReportClient_init T H a lg = Inl e"
  by (simp add: ReportClient_init_def)

text \<open>
  An int of at least \<open>10 ^ k\<close> has more than \<open>k\<close> decimal digits, so the sample int
  of 4301 digits is beyond the conversion limit.
\<close>

lemma length_dec_power: "10 ^ k \<le> n \<Longrightarrow> k < length (dec n)"
proof (induction k arbitrary: n)
  case 0
  show ?case by (subst dec.simps) simp
next
  case (Suc k)
  from Suc.prems have "(10::nat) * 10 ^ k \<le> n" by simp
  moreover have "(10::nat) \<le> 10 * 10 ^ k" by simp
  ultimately have ge: "10 \<le> n" by (rule le_trans [rotated])
  from \<open>(10::nat) * 10 ^ k \<le> n\<close> have "10 ^ k \<le> n div 10" by (simp add: less_eq_div_iff_mult_less_eq mult.commute)
  then have "k < length (dec (n div 10))" by (rule Suc.IH)
  moreover have "dec n = dec (n div 10) @ [digit_char (n mod 10)]"
    using ge by (subst dec.simps) simp
  ultimately show ?case by simp
qed

lemma huge_int_digits: "int_max_str_digits < length (dec (nat \<bar>huge_int\<bar>))"
proof -
  have nonneg: "(0::int) \<le> 10 ^ 4300" by (rule zero_le_power) simp
  have "nat ((10::int) ^ 4300) = nat 10 ^ 4300" by (rule nat_power_eq) simp
  also have "nat (10::int) = 10" by (simp only: nat_numeral)
  finally have "nat \<bar>huge_int\<bar> = 10 ^ 4300"
    unfolding huge_int_def using nonneg by (simp only: abs_of_nonneg)
  then have "4300 < length (dec (nat \<bar>huge_int\<bar>))"
    using length_dec_power [of 4300 "nat \<bar>huge_int\<bar>"] by (simp only: order_refl)
  then show ?thesis by (simp only: int_max_str_digits_def)
qed

lemma py_str_huge_int:
  "py_str (PInt huge_int)
     = Inl (ValueError ''Exceeds the limit (4300 digits) for integer string conversion; use sys.set_int_max_str_digits() to increase the limit'')"
  using huge_int_digits by (simp only: py_str.simps if_True)

text \<open>Evaluation of the constructor on inputs that hold the sample int.\<close>

lemmas init_eval_huge =
  ReportClient_init_def sample_tables_def sample_host_def sample_args_def default_args_def
  class_logger_def sample_client_def env_param_map_def resolve_param_def set_endpoint_def
  configure_logging_def user_agent_def app_name_and_ver_def current_py_ver_def
  invalid_region_def client_core.extend_def report_client.fields_def Let_def py_str_huge_int

lemma py_str_Inr_iff:
  "(\<exists>s. py_str v = Inr s) \<longleftrightarrow> (\<forall>i. v = PInt i \<longrightarrow> length (dec (nat \<bar>i\<bar>)) \<le> int_max_str_digits)"
  by (cases v) auto

section \<open>Required fields\<close>

text \<open>
  Claim C3 says that after construction each of the five required fields holds a
  non-empty value, and that construction fails whenever one of them resolves to an empty
  value. The loop tests the argument with \<^verbatim>\<open>is None\<close> and takes what the
  environment holds, so the empty string is accepted: with the argument
  \<^verbatim>\<open>mws_access_key=''\<close> construction succeeds and the field holds the empty string.
\<close>

theorem C3_counterexample:
  "ReportClient_init sample_tables sample_host (sample_args\<lparr>arg_mws_access_key := PStr []\<rparr>) class_logger
     = Inr (sample_client\<lparr>mws_access_key := PStr []\<rparr>, class_logger)
   \<and> mws_access_key (sample_client\<lparr>mws_access_key := PStr []\<rparr>) = PStr []"
  by (simp add: init_eval)

text \<open>
  Claim C3, as the code has it: after construction each of the five required fields holds
  the value its key resolved to (the argument when it is not \<^verbatim>\<open>None\<close>, else the
  string of the environment variable), which is never \<^verbatim>\<open>None\<close>; and construction
  fails whenever the argument of one of the five keys is \<^verbatim>\<open>None\<close> and its
  environment variable is not set.
\<close>

theorem C3_required_fields_present:
  "(ReportClient_init T H a lg = Inr (c, lg') \<longrightarrow>
      mws_access_key c \<noteq> PNone \<and> mws_secret_key c \<noteq> PNone \<and> merchant_id c \<noteq> PNone
      \<and> region c \<noteq> PNone \<and> currency_code c \<noteq> PNone
      \<and> resolve_param a (environ H) Mws_access_key ''AP_MWS_ACCESS_KEY'' = Inr (mws_access_key c)
      \<and> resolve_param a (environ H) Mws_secret_key ''AP_MWS_SECRET_KEY'' = Inr (mws_secret_key c)
      \<and> resolve_param a (environ H) Merchant_id ''AP_MERCHANT_ID'' = Inr (merchant_id c)
      \<and> resolve_param a (environ H) Region ''AP_REGION'' = Inr (region c)
      \<and> resolve_param a (environ H) Currency_code ''AP_CURRENCY_CODE'' = Inr (currency_code c))
   \<and> ((p, var) \<in> set env_param_map \<and> eval_param a p = PNone \<and> environ H var = None \<longrightarrow>
        (\<exists>e. ReportClient_init T H a lg = Inl e))"
proof (intro conjI impI)
  assume ok: "ReportClient_init T H a lg = Inr (c, lg')"
  then obtain ak sk mid reg cc where
    vs: "resolve_params a (environ H) env_param_map = Inr [ak, sk, mid, reg, cc]"
    and c: "mws_access_key c = ak" "mws_secret_key c = sk" "merchant_id c = mid"
      "region c = reg" "currency_code c = cc"
    by (auto simp: init_Inr_iff)
  from vs have r:
    "resolve_param a (environ H) Mws_access_key ''AP_MWS_ACCESS_KEY'' = Inr ak"
    "resolve_param a (environ H) Mws_secret_key ''AP_MWS_SECRET_KEY'' = Inr sk"
    "resolve_param a (environ H) Merchant_id ''AP_MERCHANT_ID'' = Inr mid"
    "resolve_param a (environ H) Region ''AP_REGION'' = Inr reg"
    "resolve_param a (environ H) Currency_code ''AP_CURRENCY_CODE'' = Inr cc"
    by (simp_all add: resolve_params_env_param_map)
  show "mws_access_key c \<noteq> PNone" using r(1) c(1) resolve_param_not_None by blast
  show "mws_secret_key c \<noteq> PNone" using r(2) c(2) resolve_param_not_None by blast
  show "merchant_id c \<noteq> PNone" using r(3) c(3) resolve_param_not_None by blast
  show "region c \<noteq> PNone" using r(4) c(4) resolve_param_not_None by blast
  show "currency_code c \<noteq> PNone" using r(5) c(5) resolve_param_not_None by blast
  show "resolve_param a (environ H) Mws_access_key ''AP_MWS_ACCESS_KEY'' = Inr (mws_access_key c)"
    using r(1) c(1) by simp
  show "resolve_param a (environ H) Mws_secret_key ''AP_MWS_SECRET_KEY'' = Inr (mws_secret_key c)"
    using r(2) c(2) by simp
  show "resolve_param a (environ H) Merchant_id ''AP_MERCHANT_ID'' = Inr (merchant_id c)"
    using r(3) c(3) by simp
  show "resolve_param a (environ H) Region ''AP_REGION'' = Inr (region c)"
    using r(4) c(4) by simp
  show "resolve_param a (environ H) Currency_code ''AP_CURRENCY_CODE'' = Inr (currency_code c)"
    using r(5) c(5) by simp
next
  assume m: "(p, var) \<in> set env_param_map \<and> eval_param a p = PNone \<and> environ H var = None"
  then have raise: "\<exists>e. resolve_param a (environ H) p var = Inl e"
    by (simp add: resolve_param_Inl_iff)
  show "\<exists>e. ReportClient_init T H a lg = Inl e"
  proof (cases "ReportClient_init T H a lg")
    case (Inl e)
    then show ?thesis by blast
  next
    case (Inr r)
    obtain c1 lg1 where "r = (c1, lg1)" by (cases r)
    with Inr obtain vs where "resolve_params a (environ H) env_param_map = Inr vs"
      by (auto simp: init_Inr_iff)
    then have
      "\<exists>v. resolve_param a (environ H) Mws_access_key ''AP_MWS_ACCESS_KEY'' = Inr v"
      "\<exists>v. resolve_param a (environ H) Mws_secret_key ''AP_MWS_SECRET_KEY'' = Inr v"
      "\<exists>v. resolve_param a (environ H) Merchant_id ''AP_MERCHANT_ID'' = Inr v"
      "\<exists>v. resolve_param a (environ H) Region ''AP_REGION'' = Inr v"
      "\<exists>v. resolve_param a (environ H) Currency_code ''AP_CURRENCY_CODE'' = Inr v"
      by (auto simp: resolve_params_env_param_map)
    moreover have "(p, var) \<in> set env_param_map" using m by simp
    ultimately have "\<exists>v. resolve_param a (environ H) p var = Inr v"
      unfolding env_param_map_def by auto
    with raise show ?thesis by auto
  qed
qed

text \<open>
  The sample client is constructed with all five fields present, and construction from
  the default arguments fails on the sample host, where \<^verbatim>\<open>AP_REGION\<close> is not set.
\<close>

theorem C3_witness:
  "ReportClient_init sample_tables sample_host sample_args class_logger
     = Inr (sample_client, class_logger)
   \<and> mws_access_key sample_client \<noteq> PNone \<and> mws_secret_key sample_client \<noteq> PNone
   \<and> merchant_id sample_client \<noteq> PNone \<and> region sample_client \<noteq> PNone
   \<and> currency_code sample_client \<noteq> PNone
   \<and> (Region, ''AP_REGION'') \<in> set env_param_map
   \<and> eval_param default_args Region = PNone \<and> environ sample_host ''AP_REGION'' = None
   \<and> (\<exists>e. ReportClient_init sample_tables sample_host default_args class_logger = Inl e)"
  using C3_required_fields_present [of sample_tables sample_host sample_args class_logger
      sample_client class_logger Region "''AP_REGION''"]
    C3_required_fields_present [of sample_tables sample_host default_args class_logger
      sample_client class_logger Region "''AP_REGION''"]
  by (simp add: sample_client_constructed)
     (simp add: env_param_map_def default_args_def sample_host_def)

text \<open>
  Claim C4 says that for each of the five required fields, a \<^verbatim>\<open>None\<close> argument with
  the environment variable unset makes construction raise a value error whose message
  names that field. The loop raises at the first such key: with no argument and an empty
  environment the region is missing, and the message names \<^verbatim>\<open>mws_access_key\<close>, not
  the region.
\<close>

theorem C4_counterexample:
  "eval_param default_args Region = PNone
   \<and> environ (sample_host\<lparr>environ := Map.empty\<rparr>) ''AP_REGION'' = None
   \<and> ReportClient_init sample_tables (sample_host\<lparr>environ := Map.empty\<rparr>) default_args class_logger
       = Inl (ValueError ''Invalid mws_access_key.'')
   \<and> \<not> sublist ''region'' ''Invalid mws_access_key.''"
  by (simp add: init_eval sublist_code)

text \<open>
  Claim C4, as the code has it: when the argument of a key is \<^verbatim>\<open>None\<close> and its
  environment variable is unset, and every key before it in the order
  \<^verbatim>\<open>mws_access_key\<close>, \<^verbatim>\<open>mws_secret_key\<close>, \<^verbatim>\<open>merchant_id\<close>,
  \<^verbatim>\<open>region\<close>, \<^verbatim>\<open>currency_code\<close> has an argument or a variable, construction
  raises the value error \<^verbatim>\<open>Invalid <field>.\<close> naming that key. Whenever some key is
  missing in this way, construction raises the value error naming one of the missing keys.
\<close>

theorem C4_first_missing_field_named:
  "(env_param_map = pre @ (p, var) # post
      \<and> list_all (\<lambda>(q, w). eval_param a q \<noteq> PNone \<or> environ H w \<noteq> None) pre
      \<and> eval_param a p = PNone \<and> environ H var = None
    \<longrightarrow> ReportClient_init T H a lg = Inl (ValueError (''Invalid '' @ param_name p @ ''.'')))
   \<and> ((p, var) \<in> set env_param_map \<and> eval_param a p = PNone \<and> environ H var = None
    \<longrightarrow> (\<exists>q w. (q, w) \<in> set env_param_map \<and> eval_param a q = PNone \<and> environ H w = None
          \<and> ReportClient_init T H a lg = Inl (ValueError (''Invalid '' @ param_name q @ ''.''))))"
proof (intro conjI impI)
  assume h: "env_param_map = pre @ (p, var) # post
      \<and> list_all (\<lambda>(q, w). eval_param a q \<noteq> PNone \<or> environ H w \<noteq> None) pre
      \<and> eval_param a p = PNone \<and> environ H var = None"
  have "\<forall>(q, w) \<in> set pre. \<exists>v. resolve_param a (environ H) q w = Inr v"
    using h by (fastforce simp: list_all_iff resolve_param_def split: option.splits)
  moreover have "resolve_param a (environ H) p var = Inl (ValueError (''Invalid '' @ param_name p @ ''.''))"
    using h by (simp add: resolve_param_Inl_iff)
  ultimately have "resolve_params a (environ H) (pre @ (p, var) # post)
      = Inl (ValueError (''Invalid '' @ param_name p @ ''.''))"
    by (rule resolve_params_first_raise)
  then show "ReportClient_init T H a lg = Inl (ValueError (''Invalid '' @ param_name p @ ''.''))"
    using h by (simp add: init_resolve_Inl)
next
  assume m: "(p, var) \<in> set env_param_map \<and> eval_param a p = PNone \<and> environ H var = None"
  let ?raises = "\<lambda>(q, w). isl (resolve_param a (environ H) q w)"
  have "?raises (p, var)" using m by (simp add: resolve_param_def)
  then have "find ?raises env_param_map \<noteq> None"
    using m by (auto simp: find_None_iff)
  then obtain q w where f: "find ?raises env_param_map = Some (q, w)" by auto
  then have mem: "(q, w) \<in> set env_param_map" and "isl (resolve_param a (environ H) q w)"
    by (auto simp: find_Some_iff in_set_conv_nth)
  then obtain e where e: "resolve_param a (environ H) q w = Inl e" by (auto simp: isl_def)
  then have "resolve_params a (environ H) env_param_map = Inl e"
    using f by (auto simp: resolve_params_Inl_find)
  then have "ReportClient_init T H a lg = Inl e" by (rule init_resolve_Inl)
  then show "\<exists>q w. (q, w) \<in> set env_param_map \<and> eval_param a q = PNone \<and> environ H w = None
          \<and> ReportClient_init T H a lg = Inl (ValueError (''Invalid '' @ param_name q @ ''.''))"
    using e mem by (auto simp: resolve_param_Inl_iff)
qed

text \<open>
  On the sample host only \<^verbatim>\<open>AP_REGION\<close> is unset: the three keys before the region
  resolve from the environment, and the error names the region.
\<close>

theorem C4_witness:
  "env_param_map = [(Mws_access_key, ''AP_MWS_ACCESS_KEY''), (Mws_secret_key, ''AP_MWS_SECRET_KEY''),
                    (Merchant_id, ''AP_MERCHANT_ID'')] @ (Region, ''AP_REGION'') # [(Currency_code, ''AP_CURRENCY_CODE'')]
   \<and> eval_param default_args Region = PNone \<and> environ sample_host ''AP_REGION'' = None
   \<and> ReportClient_init sample_tables sample_host default_args class_logger
       = Inl (ValueError ''Invalid region.'')"
  using C4_first_missing_field_named [of
      "[(Mws_access_key, ''AP_MWS_ACCESS_KEY''), (Mws_secret_key, ''AP_MWS_SECRET_KEY''),
        (Merchant_id, ''AP_MERCHANT_ID'')]" Region "''AP_REGION''"
      "[(Currency_code, ''AP_CURRENCY_CODE'')]" default_args sample_host sample_tables class_logger]
  by (simp add: env_param_map_def default_args_def sample_host_def)

section \<open>Region lookup\<close>

lemma lookup_region_Inr_iff:
  "lookup_region T reg = Inr h \<longleftrightarrow> (\<exists>code. reg = PStr code \<and> regions T code = Some h)"
  by (cases reg) (auto simp: invalid_region_def split: option.splits sum.splits)

lemma lookup_region_not_key:
  "reg \<notin> PStr ` dom (regions T) \<Longrightarrow> lookup_region T reg = invalid_region reg"
  by (cases reg) (auto split: option.splits)

lemma init_lookup_Inl:
  "resolve_params a (environ H) env_param_map = Inr [ak, sk, mid, reg, cc] \<Longrightarrow>
   lookup_region T reg = Inl e \<Longrightarrow> ReportClient_init T H a lg = Inl e"
  by (simp add: ReportClient_init_def)

text \<open>
  Claim C5 says that for every resolved region code that is not a key of the region
  table, construction fails with a key error naming the code. The loop over the five
  keys runs to its end before the table is read: with the region \<^verbatim>\<open>xx\<close> given and
  no currency code, the region resolves and is not a key, and construction raises the
  value error of the currency code. And the handler formats the code into its message:
  for an int code beyond the conversion limit \<^verbatim>\<open>format\<close> raises a value error in
  place of the key error.
\<close>

theorem C5_counterexample:
  "resolve_param (default_args\<lparr>arg_region := PStr ''xx''\<rparr>)
      (environ (sample_host\<lparr>environ := (environ sample_host)(''AP_CURRENCY_CODE'' := None)\<rparr>))
      Region ''AP_REGION'' = Inr (PStr ''xx'')
   \<and> PStr ''xx'' \<notin> PStr ` dom (regions sample_tables)
   \<and> ReportClient_init sample_tables
        (sample_host\<lparr>environ := (environ sample_host)(''AP_CURRENCY_CODE'' := None)\<rparr>)
        (default_args\<lparr>arg_region := PStr ''xx''\<rparr>) class_logger
       = Inl (ValueError ''Invalid currency_code.'')
   \<and> resolve_params (sample_args\<lparr>arg_region := PInt huge_int\<rparr>) (environ sample_host) env_param_map
       = Inr [PStr ''AKIA'', PStr ''secret'', PStr ''M1'', PInt huge_int, PStr ''USD'']
   \<and> PInt huge_int \<notin> PStr ` dom (regions sample_tables)
   \<and> ReportClient_init sample_tables sample_host (sample_args\<lparr>arg_region := PInt huge_int\<rparr>) class_logger
       = Inl (ValueError ''Exceeds the limit (4300 digits) for integer string conversion; use sys.set_int_max_str_digits() to increase the limit'')"
proof -
  have 1: "resolve_param (default_args\<lparr>arg_region := PStr ''xx''\<rparr>)
      (environ (sample_host\<lparr>environ := (environ sample_host)(''AP_CURRENCY_CODE'' := None)\<rparr>))
      Region ''AP_REGION'' = Inr (PStr ''xx'')"
    by (simp add: resolve_param_def)
  have 2: "PStr ''xx'' \<notin> PStr ` dom (regions sample_tables)"
    by (auto simp: sample_tables_def)
  have 3: "ReportClient_init sample_tables
        (sample_host\<lparr>environ := (environ sample_host)(''AP_CURRENCY_CODE'' := None)\<rparr>)
        (default_args\<lparr>arg_region := PStr ''xx''\<rparr>) class_logger
       = Inl (ValueError ''Invalid currency_code.'')"
    by (simp add: init_eval)
  have 4: "resolve_params (sample_args\<lparr>arg_region := PInt huge_int\<rparr>) (environ sample_host) env_param_map
       = Inr [PStr ''AKIA'', PStr ''secret'', PStr ''M1'', PInt huge_int, PStr ''USD'']"
    by (simp add: init_eval_huge del: py_str.simps)
  have 5: "PInt huge_int \<notin> PStr ` dom (regions sample_tables)"
    by auto
  have 6: "ReportClient_init sample_tables sample_host (sample_args\<lparr>arg_region := PInt huge_int\<rparr>) class_logger
       = Inl (ValueError ''Exceeds the limit (4300 digits) for integer string conversion; use sys.set_int_max_str_digits() to increase the limit'')"
    by (simp add: init_eval_huge del: py_str.simps)
  show ?thesis using 1 2 3 4 5 6 by blast
qed

text \<open>
  Claim C5, as the code has it: when all five required values resolve, a resolved region
  code that is not a key of the region table makes construction fail with the key error
  \<^verbatim>\<open>Invalid region code (<code>)\<close> naming it, for a string code and for every code
  that \<^verbatim>\<open>format\<close> can render; a code that cannot be rendered raises the error of
  the conversion. For every code in the table the lookup succeeds with its host name,
  which a constructed client holds as its region host.
\<close>

theorem C5_region_lookup:
  assumes "resolve_params a (environ H) env_param_map = Inr [ak, sk, mid, reg, cc]"
  shows "(reg = PStr code \<and> regions T code = None \<longrightarrow>
            ReportClient_init T H a lg = Inl (KeyError (''Invalid region code ('' @ code @ '')'')))
       \<and> (reg \<notin> PStr ` dom (regions T) \<and> py_str reg = Inr s \<longrightarrow>
            ReportClient_init T H a lg = Inl (KeyError (''Invalid region code ('' @ s @ '')'')))
       \<and> (reg \<notin> PStr ` dom (regions T) \<and> py_str reg = Inl e \<longrightarrow>
            ReportClient_init T H a lg = Inl e)
       \<and> (reg = PStr code \<and> regions T code = Some h \<longrightarrow>
            lookup_region T reg = Inr h
            \<and> (\<forall>c lg'. ReportClient_init T H a lg = Inr (c, lg') \<longrightarrow>
                  region c = PStr code \<and> p_region_code c = PStr code \<and> p_region c = h))"
proof (intro conjI impI)
  assume k: "reg = PStr code \<and> regions T code = None"
  then have "lookup_region T reg = Inl (KeyError (''Invalid region code ('' @ code @ '')''))"
    by (simp add: invalid_region_def)
  with assms show "ReportClient_init T H a lg = Inl (KeyError (''Invalid region code ('' @ code @ '')''))"
    by (rule init_lookup_Inl)
next
  assume k: "reg \<notin> PStr ` dom (regions T) \<and> py_str reg = Inr s"
  then have "lookup_region T reg = Inl (KeyError (''Invalid region code ('' @ s @ '')''))"
    by (simp add: lookup_region_not_key invalid_region_def)
  with assms show "ReportClient_init T H a lg = Inl (KeyError (''Invalid region code ('' @ s @ '')''))"
    by (rule init_lookup_Inl)
next
  assume k: "reg \<notin> PStr ` dom (regions T) \<and> py_str reg = Inl e"
  then have "lookup_region T reg = Inl e"
    by (simp add: lookup_region_not_key invalid_region_def)
  with assms show "ReportClient_init T H a lg = Inl e"
    by (rule init_lookup_Inl)
next
  assume k: "reg = PStr code \<and> regions T code = Some h"
  then show "lookup_region T reg = Inr h" by simp
  show "\<forall>c lg'. ReportClient_init T H a lg = Inr (c, lg') \<longrightarrow>
                  region c = PStr code \<and> p_region_code c = PStr code \<and> p_region c = h"
    using assms k by (auto simp: init_Inr_iff)
qed

text \<open>
  The codes \<^verbatim>\<open>xx\<close> and \<^verbatim>\<open>5\<close> are not in the sample table and are named by the
  key error; the code \<^verbatim>\<open>na\<close> is mapped to its host.
\<close>

theorem C5_witness:
  "resolve_params (sample_args\<lparr>arg_region := PStr ''xx''\<rparr>) (environ sample_host) env_param_map
     = Inr [PStr ''AKIA'', PStr ''secret'', PStr ''M1'', PStr ''xx'', PStr ''USD'']
   \<and> regions sample_tables ''xx'' = None
   \<and> ReportClient_init sample_tables sample_host (sample_args\<lparr>arg_region := PStr ''xx''\<rparr>) class_logger
       = Inl (KeyError ''Invalid region code (xx)'')
   \<and> resolve_params (sample_args\<lparr>arg_region := PInt 5\<rparr>) (environ sample_host) env_param_map
     = Inr [PStr ''AKIA'', PStr ''secret'', PStr ''M1'', PInt 5, PStr ''USD'']
   \<and> PInt 5 \<notin> PStr ` dom (regions sample_tables) \<and> py_str (PInt 5) = Inr ''5''
   \<and> ReportClient_init sample_tables sample_host (sample_args\<lparr>arg_region := PInt 5\<rparr>) class_logger
       = Inl (KeyError ''Invalid region code (5)'')
   \<and> resolve_params sample_args (environ sample_host) env_param_map
       = Inr [PStr ''AKIA'', PStr ''secret'', PStr ''M1'', PStr ''na'', PStr ''USD'']
   \<and> regions sample_tables ''na'' = Some ''mws.amazonservices.com''
   \<and> lookup_region sample_tables (PStr ''na'') = Inr ''mws.amazonservices.com''
   \<and> p_region sample_client = ''mws.amazonservices.com''"
proof -
  have r1: "resolve_params (sample_args\<lparr>arg_region := PStr ''xx''\<rparr>) (environ sample_host) env_param_map
     = Inr [PStr ''AKIA'', PStr ''secret'', PStr ''M1'', PStr ''xx'', PStr ''USD'']"
    by (simp add: init_eval)
  have r2: "resolve_params sample_args (environ sample_host) env_param_map
       = Inr [PStr ''AKIA'', PStr ''secret'', PStr ''M1'', PStr ''na'', PStr ''USD'']"
    by (simp add: init_eval)
  have r3: "resolve_params (sample_args\<lparr>arg_region := PInt 5\<rparr>) (environ sample_host) env_param_map
     = Inr [PStr ''AKIA'', PStr ''secret'', PStr ''M1'', PInt 5, PStr ''USD'']"
    by (simp add: init_eval)
  have n: "regions sample_tables ''xx'' = None"
    by (simp add: sample_tables_def)
  have n5: "PInt 5 \<notin> PStr ` dom (regions sample_tables)" by auto
  have s5: "py_str (PInt 5) = Inr ''5''"
    by (simp add: dec.simps digit_char_def int_max_str_digits_def)
  have k: "regions sample_tables ''na'' = Some ''mws.amazonservices.com''"
    by (simp add: sample_tables_def)
  show ?thesis
    using C5_region_lookup [OF r1, where T = sample_tables and lg = class_logger and code = "''xx''"]
      C5_region_lookup [OF r3, where T = sample_tables and lg = class_logger and s = "''5''"]
      C5_region_lookup [OF r2, where T = sample_tables and lg = class_logger and code = "''na''"
        and h = "''mws.amazonservices.com''"]
      r1 r2 r3 n n5 s5 k sample_client_constructed
    by simp
qed

section \<open>Endpoint\<close>

text \<open>
  On a client whose endpoint is the one \<^verbatim>\<open>_set_endpoint\<close> computes, the setter
  changes the flag only.
\<close>

lemma sandbox_setter_keeps_endpoint:
  "p_mws_endpoint c = PStr (''https://'' @ p_region c @ ''/'' @ p_api_name c @ ''/'' @ p_api_version c)
   \<Longrightarrow> sandbox_setter c v = c\<lparr> p_sandbox := v \<rparr>"
  by (simp add: sandbox_setter_def set_endpoint_def)

lemma foldl_sandbox_setter:
  "p_mws_endpoint c = PStr (''https://'' @ p_region c @ ''/'' @ p_api_name c @ ''/'' @ p_api_version c)
   \<Longrightarrow> foldl sandbox_setter c vs = c\<lparr> p_sandbox := last (p_sandbox c # vs) \<rparr>"
proof (induction vs arbitrary: c)
  case Nil
  then show ?case by simp
next
  case (Cons v vs)
  have "sandbox_setter c v = c\<lparr> p_sandbox := v \<rparr>"
    using Cons.prems by (rule sandbox_setter_keeps_endpoint)
  then show ?case using Cons by simp
qed

lemma init_endpoint:
  "ReportClient_init T H a lg = Inr (c, lg') \<Longrightarrow>
   p_api_name c = ver_api_name T \<and> p_api_version c = ver_api_version T
   \<and> p_mws_endpoint c = PStr (''https://'' @ p_region c @ ''/'' @ p_api_name c @ ''/'' @ p_api_version c)"
  by (auto simp: init_Inr_iff)

text \<open>
  Claim C6: the endpoint of every client, as constructed and after any number of
  assignments to \<^verbatim>\<open>sandbox\<close>, is \<^verbatim>\<open>https://\<close> followed by the region host, a
  slash, the API name, a slash and the API version; two clients with the same region
  host have the same endpoint.
\<close>

theorem C6_endpoint_function:
  assumes "ReportClient_init T H1 a1 lg1 = Inr (c1, lg1')"
    and "ReportClient_init T H2 a2 lg2 = Inr (c2, lg2')"
  shows "p_mws_endpoint (foldl sandbox_setter c1 vs)
           = PStr (''https://'' @ p_region c1 @ ''/'' @ ver_api_name T @ ''/'' @ ver_api_version T)
       \<and> (p_region c1 = p_region c2 \<longrightarrow>
            p_mws_endpoint (foldl sandbox_setter c1 vs) = p_mws_endpoint (foldl sandbox_setter c2 ws))"
proof -
  have e1: "p_mws_endpoint (foldl sandbox_setter c1 vs)
           = PStr (''https://'' @ p_region c1 @ ''/'' @ ver_api_name T @ ''/'' @ ver_api_version T)"
    using init_endpoint [OF assms(1)] by (simp add: foldl_sandbox_setter)
  have e2: "p_mws_endpoint (foldl sandbox_setter c2 ws)
           = PStr (''https://'' @ p_region c2 @ ''/'' @ ver_api_name T @ ''/'' @ ver_api_version T)"
    using init_endpoint [OF assms(2)] by (simp add: foldl_sandbox_setter)
  show ?thesis using e1 e2 by simp
qed

text \<open>
  Two sample clients with the same region host, one after two assignments to
  \<^verbatim>\<open>sandbox\<close>, have the same endpoint.
\<close>

theorem C6_witness:
  "ReportClient_init sample_tables sample_host sample_args class_logger = Inr (sample_client, class_logger)
   \<and> ReportClient_init sample_tables sample_host (sample_args\<lparr>arg_mws_access_key := PStr []\<rparr>) class_logger
       = Inr (sample_client\<lparr>mws_access_key := PStr []\<rparr>, class_logger)
   \<and> p_region sample_client = p_region (sample_client\<lparr>mws_access_key := PStr []\<rparr>)
   \<and> p_mws_endpoint (foldl sandbox_setter sample_client [PBool True, PBool False])
       = PStr ''https://mws.amazonservices.com/Reports/2009-01-01''
   \<and> p_mws_endpoint (foldl sandbox_setter sample_client [PBool True, PBool False])
       = p_mws_endpoint (foldl sandbox_setter (sample_client\<lparr>mws_access_key := PStr []\<rparr>) [])"
proof -
  have i2: "ReportClient_init sample_tables sample_host (sample_args\<lparr>arg_mws_access_key := PStr []\<rparr>) class_logger
       = Inr (sample_client\<lparr>mws_access_key := PStr []\<rparr>, class_logger)"
    by (simp add: init_eval)
  show ?thesis
    using C6_endpoint_function [OF sample_client_constructed i2, of "[PBool True, PBool False]" "[]"]
      sample_client_constructed i2
    by (simp add: sample_client_def sample_tables_def)
qed

text \<open>
  Claim C1 says that setting \<^verbatim>\<open>sandbox\<close> to a value different from the current one
  changes the endpoint string. \<^verbatim>\<open>_set_endpoint\<close> reads the region host, the API name
  and the API version, and not the flag: on the sample client, constructed with
  \<^verbatim>\<open>sandbox=False\<close>, setting the flag to \<^verbatim>\<open>True\<close> leaves the endpoint as it
  was.
\<close>

theorem C1_counterexample:
  "ReportClient_init sample_tables sample_host sample_args class_logger
     = Inr (sample_client, class_logger)
   \<and> sandbox sample_client = PBool False
   \<and> sandbox (sandbox_setter sample_client (PBool True)) = PBool True
   \<and> p_mws_endpoint (sandbox_setter sample_client (PBool True)) = p_mws_endpoint sample_client"
  by (simp add: sample_client_constructed)
     (simp add: sandbox_def sandbox_setter_def set_endpoint_def sample_client_def)

text \<open>
  Claim C1, as the code has it: on every constructed client, setting \<^verbatim>\<open>sandbox\<close>
  stores the new value and recomputes the endpoint; the recomputed endpoint is
  determined by the region host and the fixed API name and version, is the same for
  every value of the flag, and equals the endpoint before the assignment.
\<close>

theorem C1_sandbox_setter_endpoint:
  assumes "ReportClient_init T H a lg = Inr (c, lg')"
  shows "sandbox (sandbox_setter c v) = v
       \<and> p_mws_endpoint (sandbox_setter c v)
           = PStr (''https://'' @ p_region c @ ''/'' @ ver_api_name T @ ''/'' @ ver_api_version T)
       \<and> p_mws_endpoint (sandbox_setter c v) = p_mws_endpoint c
       \<and> p_mws_endpoint (sandbox_setter c v) = p_mws_endpoint (sandbox_setter c w)"
  using assms
  by (auto simp: init_Inr_iff sandbox_def sandbox_setter_def set_endpoint_def)

text \<open>Setting the flag on the sample client.\<close>

theorem C1_witness:
  "sandbox (sandbox_setter sample_client (PBool True)) = PBool True
   \<and> p_mws_endpoint (sandbox_setter sample_client (PBool True))
       = PStr ''https://mws.amazonservices.com/Reports/2009-01-01''
   \<and> p_mws_endpoint (sandbox_setter sample_client (PBool True)) = p_mws_endpoint sample_client"
  using C1_sandbox_setter_endpoint [OF sample_client_constructed, of "PBool True" "PBool True"]
  by (simp add: sample_client_def sample_tables_def)

section \<open>User agent\<close>

lemma map_str_Inr_iff:
  "map_str vs = Inr ss \<longleftrightarrow> list_all2 (\<lambda>v s. py_str v = Inr s) vs ss"
proof (induction vs arbitrary: ss)
  case Nil
  then show ?case by auto
next
  case (Cons v vs)
  show ?case
  proof (cases "py_str v")
    case (Inl e)
    then show ?thesis by (auto simp: list_all2_Cons1)
  next
    case (Inr s)
    then show ?thesis
      by (cases "map_str vs") (auto simp: list_all2_Cons1 Cons.IH [symmetric])
  qed
qed

lemma app_name_and_ver_Inr:
  assumes "py_str n = Inr sn" and "py_str v = Inr sv"
  shows "app_name_and_ver n v =
     Inr (if n = PStr [] \<or> n = PNone
          then (if v = PStr [] \<or> v = PNone then [] else sv @ ''; '')
          else (if v = PStr [] \<or> v = PNone then sn @ ''; ''
                else sn @ ''/'' @ sv @ ''; ''))"
  using assms by (simp add: app_name_and_ver_def)

lemma app_name_and_ver_Inl:
  assumes "py_str n = Inl e \<or> (py_str n = Inr sn \<and> py_str v = Inl e)"
  shows "app_name_and_ver n v = Inl e"
proof -
  have absent: "py_str x = Inl e \<Longrightarrow> x \<noteq> PStr [] \<and> x \<noteq> PNone" for x
    by auto
  from assms show ?thesis
  proof
    assume "py_str n = Inl e"
    then show ?thesis using absent [of n] by (simp add: app_name_and_ver_def)
  next
    assume "py_str n = Inr sn \<and> py_str v = Inl e"
    then show ?thesis using absent [of v] by (simp add: app_name_and_ver_def)
  qed
qed

lemma resolve_params_app_update:
  "resolve_params (a\<lparr>arg_application_name := n, arg_application_version := v\<rparr>) env ps
      = resolve_params a env ps"
proof (induction ps)
  case Nil
  then show ?case by simp
next
  case (Cons pv ps)
  obtain p var where pv: "pv = (p, var)" by (cases pv)
  have "resolve_param (a\<lparr>arg_application_name := n, arg_application_version := v\<rparr>) env p var
      = resolve_param a env p var"
    by (cases p) (simp_all add: resolve_param_def)
  then show ?case using Cons pv by (simp split: sum.splits)
qed

lemma init_user_agent:
  assumes "ReportClient_init T H a lg = Inr (c, lg')"
  shows "\<exists>strs app.
           list_all2 (\<lambda>v s. py_str v = Inr s) (take 3 (version_info H)) strs
         \<and> app_name_and_ver (arg_application_name a) (arg_application_version a) = Inr app
         \<and> p_user_agent c
             = ''amazon-pay-sdk-python/'' @ ver_application_version T @ '' ('' @ app
                 @ ''Python/'' @ join ''.'' strs @ ''; '' @ platform_system H @ ''/''
                 @ platform_release H @ '')''"
proof -
  from assms obtain ua where "user_agent H (ver_application_version T)
      (arg_application_name a) (arg_application_version a) = Inr ua" and "p_user_agent c = ua"
    by (auto simp: init_Inr_iff)
  then show ?thesis
    by (auto simp: user_agent_def current_py_ver_def map_str_Inr_iff split: sum.splits)
qed

lemma init_app_update_Inr:
  assumes "ReportClient_init T H a lg = Inr (c, lg')"
    and "app_name_and_ver n v = Inr app"
  shows "\<exists>c1 strs.
           ReportClient_init T H (a\<lparr>arg_application_name := n, arg_application_version := v\<rparr>) lg
             = Inr (c1, lg')
         \<and> list_all2 (\<lambda>v s. py_str v = Inr s) (take 3 (version_info H)) strs
         \<and> p_user_agent c1
             = ''amazon-pay-sdk-python/'' @ ver_application_version T @ '' ('' @ app
                 @ ''Python/'' @ join ''.'' strs @ ''; '' @ platform_system H @ ''/''
                 @ platform_release H @ '')''"
proof -
  from init_user_agent [OF assms(1)] obtain strs where
    s: "list_all2 (\<lambda>v s. py_str v = Inr s) (take 3 (version_info H)) strs" by blast
  then have ver: "current_py_ver H = Inr (join ''.'' strs)"
    by (simp add: current_py_ver_def map_str_Inr_iff [symmetric])
  have ua: "user_agent H (ver_application_version T) n v
      = Inr (''amazon-pay-sdk-python/'' @ ver_application_version T @ '' ('' @ app
                 @ ''Python/'' @ join ''.'' strs @ ''; '' @ platform_system H @ ''/''
                 @ platform_release H @ '')'')"
    using ver assms(2) by (simp add: user_agent_def)
  from assms(1) obtain ak sk mid reg cc h where
    r: "resolve_params a (environ H) env_param_map = Inr [ak, sk, mid, reg, cc]"
    and l: "lookup_region T reg = Inr h"
    and g: "configure_logging H (arg_log_enabled a) (arg_log_file_name a) (arg_log_level a) lg = Inr lg'"
    by (auto simp: init_Inr_iff)
  have "\<exists>c1. ReportClient_init T H (a\<lparr>arg_application_name := n, arg_application_version := v\<rparr>) lg
             = Inr (c1, lg')
        \<and> p_user_agent c1 = ''amazon-pay-sdk-python/'' @ ver_application_version T @ '' ('' @ app
                 @ ''Python/'' @ join ''.'' strs @ ''; '' @ platform_system H @ ''/''
                 @ platform_release H @ '')''"
    using r l g ua by (simp add: init_Inr_iff resolve_params_app_update)
  then show ?thesis using s by blast
qed

lemma init_app_update_Inl:
  assumes "ReportClient_init T H a lg = Inr (c, lg')"
    and "app_name_and_ver n v = Inl e"
  shows "ReportClient_init T H (a\<lparr>arg_application_name := n, arg_application_version := v\<rparr>) lg
             = Inl e"
proof -
  from assms(1) obtain ak sk mid reg cc h where
    r: "resolve_params a (environ H) env_param_map = Inr [ak, sk, mid, reg, cc]"
    and l: "lookup_region T reg = Inr h"
    and g: "configure_logging H (arg_log_enabled a) (arg_log_file_name a) (arg_log_level a) lg = Inr lg'"
    by (auto simp: init_Inr_iff)
  have "user_agent H (ver_application_version T) n v = Inl e"
    using assms(2) by (simp add: user_agent_def)
  then show ?thesis
    using r l g by (simp add: ReportClient_init_def resolve_params_app_update set_endpoint_def Let_def)
qed

lemma sublist_middle: "sublist m (x @ m @ y)"
  by (rule sublist_appendI)

text \<open>
  Claim C7 says that building the user agent never fails for any application name and
  version, and gives the application part as the name with an optional version. The
  name and version pass through \<^verbatim>\<open>str\<close>: an int beyond the conversion limit
  raises a value error at line 150, where the same arguments without it construct a
  client. With a version and no name, the application part is the version alone.
\<close>

theorem C7_counterexample:
  "ReportClient_init sample_tables sample_host sample_args class_logger
     = Inr (sample_client, class_logger)
   \<and> ReportClient_init sample_tables sample_host
        (sample_args\<lparr>arg_application_name := PInt huge_int\<rparr>) class_logger
       = Inl (ValueError ''Exceeds the limit (4300 digits) for integer string conversion; use sys.set_int_max_str_digits() to increase the limit'')
   \<and> ReportClient_init sample_tables sample_host
        (sample_args\<lparr>arg_application_version := PStr ''1.0''\<rparr>) class_logger
       = Inr (sample_client\<lparr>application_version := PStr ''1.0'',
                p_user_agent := ''amazon-pay-sdk-python/2.7.1 (1.0; Python/3.11.4; Linux/5.4.0)'',
                p_headers := [(''Content-Type'', ''application/x-www-form-urlencoded''),
                              (''User-Agent'', ''amazon-pay-sdk-python/2.7.1 (1.0; Python/3.11.4; Linux/5.4.0)'')]\<rparr>,
              class_logger)"
proof -
  have 2: "ReportClient_init sample_tables sample_host
        (sample_args\<lparr>arg_application_name := PInt huge_int\<rparr>) class_logger
       = Inl (ValueError ''Exceeds the limit (4300 digits) for integer string conversion; use sys.set_int_max_str_digits() to increase the limit'')"
    by (simp add: init_eval_huge del: py_str.simps)
  have 3: "ReportClient_init sample_tables sample_host
        (sample_args\<lparr>arg_application_version := PStr ''1.0''\<rparr>) class_logger
       = Inr (sample_client\<lparr>application_version := PStr ''1.0'',
                p_user_agent := ''amazon-pay-sdk-python/2.7.1 (1.0; Python/3.11.4; Linux/5.4.0)'',
                p_headers := [(''Content-Type'', ''application/x-www-form-urlencoded''),
                              (''User-Agent'', ''amazon-pay-sdk-python/2.7.1 (1.0; Python/3.11.4; Linux/5.4.0)'')]\<rparr>,
              class_logger)"
    by (simp add: init_eval)
  show ?thesis using sample_client_constructed 2 3 by blast
qed

text \<open>
  Claim C7, as the code has it: for every successful construction the user agent is
  \<^verbatim>\<open>amazon-pay-sdk-python/<SDK version> (<application part>Python/<interpreter version>; <platform>/<release>)\<close>,
  where the interpreter version is the first three components of
  \<^verbatim>\<open>sys.version_info\<close>, each rendered by \<^verbatim>\<open>str\<close>, joined by dots, and the
  application part is empty, or the name, the version, or \<^verbatim>\<open>name/version\<close>,
  followed by a semicolon and a space; the user agent contains the interpreter version
  and the platform name as substrings. Where construction succeeds, it succeeds with
  every application name and version that \<^verbatim>\<open>str\<close> can render, with the user agent
  of that shape, and raises the error of the conversion otherwise; \<^verbatim>\<open>str\<close> renders
  every value but an int of more digits than the conversion limit.
\<close>

theorem C7_user_agent:
  assumes "ReportClient_init T H a lg = Inr (c, lg')"
  shows "(\<exists>strs app.
            list_all2 (\<lambda>v s. py_str v = Inr s) (take 3 (version_info H)) strs
          \<and> app_name_and_ver (arg_application_name a) (arg_application_version a) = Inr app
          \<and> p_user_agent c
              = ''amazon-pay-sdk-python/'' @ ver_application_version T @ '' ('' @ app
                  @ ''Python/'' @ join ''.'' strs @ ''; '' @ platform_system H @ ''/''
                  @ platform_release H @ '')''
          \<and> sublist (join ''.'' strs) (p_user_agent c)
          \<and> sublist (platform_system H) (p_user_agent c))
       \<and> (py_str n = Inr sn \<and> py_str v = Inr sv \<longrightarrow>
            (\<exists>c1 strs.
                ReportClient_init T H (a\<lparr>arg_application_name := n, arg_application_version := v\<rparr>) lg
                  = Inr (c1, lg')
              \<and> list_all2 (\<lambda>v s. py_str v = Inr s) (take 3 (version_info H)) strs
              \<and> p_user_agent c1
                  = ''amazon-pay-sdk-python/'' @ ver_application_version T @ '' (''
                      @ (if n = PStr [] \<or> n = PNone
                         then (if v = PStr [] \<or> v = PNone then [] else sv @ ''; '')
                         else (if v = PStr [] \<or> v = PNone then sn @ ''; ''
                               else sn @ ''/'' @ sv @ ''; ''))
                      @ ''Python/'' @ join ''.'' strs @ ''; '' @ platform_system H @ ''/''
                      @ platform_release H @ '')''))
       \<and> (py_str n = Inl e \<or> (py_str n = Inr sn \<and> py_str v = Inl e) \<longrightarrow>
            ReportClient_init T H (a\<lparr>arg_application_name := n, arg_application_version := v\<rparr>) lg
              = Inl e)
       \<and> ((\<exists>s. py_str n = Inr s) \<longleftrightarrow>
            (\<forall>i. n = PInt i \<longrightarrow> length (dec (nat \<bar>i\<bar>)) \<le> int_max_str_digits))"
proof (intro conjI impI)
  from init_user_agent [OF assms] obtain strs app where
    s: "list_all2 (\<lambda>v s. py_str v = Inr s) (take 3 (version_info H)) strs"
    and ap: "app_name_and_ver (arg_application_name a) (arg_application_version a) = Inr app"
    and ua: "p_user_agent c
              = ''amazon-pay-sdk-python/'' @ ver_application_version T @ '' ('' @ app
                  @ ''Python/'' @ join ''.'' strs @ ''; '' @ platform_system H @ ''/''
                  @ platform_release H @ '')''"
    by blast
  have "p_user_agent c
      = (''amazon-pay-sdk-python/'' @ ver_application_version T @ '' ('' @ app @ ''Python/'')
          @ join ''.'' strs @ (''; '' @ platform_system H @ ''/'' @ platform_release H @ '')'')"
    using ua by simp
  then have s1: "sublist (join ''.'' strs) (p_user_agent c)"
    by (metis sublist_middle)
  have "p_user_agent c
      = (''amazon-pay-sdk-python/'' @ ver_application_version T @ '' ('' @ app @ ''Python/''
          @ join ''.'' strs @ ''; '') @ platform_system H @ (''/'' @ platform_release H @ '')'')"
    using ua by simp
  then have s2: "sublist (platform_system H) (p_user_agent c)"
    by (metis sublist_middle)
  show "\<exists>strs app.
            list_all2 (\<lambda>v s. py_str v = Inr s) (take 3 (version_info H)) strs
          \<and> app_name_and_ver (arg_application_name a) (arg_application_version a) = Inr app
          \<and> p_user_agent c
              = ''amazon-pay-sdk-python/'' @ ver_application_version T @ '' ('' @ app
                  @ ''Python/'' @ join ''.'' strs @ ''; '' @ platform_system H @ ''/''
                  @ platform_release H @ '')''
          \<and> sublist (join ''.'' strs) (p_user_agent c)
          \<and> sublist (platform_system H) (p_user_agent c)"
    using s ap ua s1 s2 by blast
next
  assume r: "py_str n = Inr sn \<and> py_str v = Inr sv"
  then have "app_name_and_ver n v =
     Inr (if n = PStr [] \<or> n = PNone
          then (if v = PStr [] \<or> v = PNone then [] else sv @ ''; '')
          else (if v = PStr [] \<or> v = PNone then sn @ ''; ''
                else sn @ ''/'' @ sv @ ''; ''))"
    by (simp add: app_name_and_ver_Inr)
  then show "\<exists>c1 strs.
                ReportClient_init T H (a\<lparr>arg_application_name := n, arg_application_version := v\<rparr>) lg
                  = Inr (c1, lg')
              \<and> list_all2 (\<lambda>v s. py_str v = Inr s) (take 3 (version_info H)) strs
              \<and> p_user_agent c1
                  = ''amazon-pay-sdk-python/'' @ ver_application_version T @ '' (''
                      @ (if n = PStr [] \<or> n = PNone
                         then (if v = PStr [] \<or> v = PNone then [] else sv @ ''; '')
                         else (if v = PStr [] \<or> v = PNone then sn @ ''; ''
                               else sn @ ''/'' @ sv @ ''; ''))
                      @ ''Python/'' @ join ''.'' strs @ ''; '' @ platform_system H @ ''/''
                      @ platform_release H @ '')''"
    by (rule init_app_update_Inr [OF assms])
next
  assume "py_str n = Inl e \<or> (py_str n = Inr sn \<and> py_str v = Inl e)"
  then have "app_name_and_ver n v = Inl e" by (rule app_name_and_ver_Inl)
  then show "ReportClient_init T H (a\<lparr>arg_application_name := n, arg_application_version := v\<rparr>) lg
              = Inl e"
    by (rule init_app_update_Inl [OF assms])
next
  show "(\<exists>s. py_str n = Inr s) \<longleftrightarrow>
            (\<forall>i. n = PInt i \<longrightarrow> length (dec (nat \<bar>i\<bar>)) \<le> int_max_str_digits)"
    by (rule py_str_Inr_iff)
qed

text \<open>
  The user agent of the sample client; with an application name and version; and with
  the sample int as application name.
\<close>

theorem C7_witness:
  "ReportClient_init sample_tables sample_host sample_args class_logger = Inr (sample_client, class_logger)
   \<and> take 3 (version_info sample_host) = [PInt 3, PInt 11, PInt 4]
   \<and> p_user_agent sample_client = ''amazon-pay-sdk-python/2.7.1 (Python/3.11.4; Linux/5.4.0)''
   \<and> sublist ''3.11.4'' (p_user_agent sample_client)
   \<and> sublist ''Linux'' (p_user_agent sample_client)
   \<and> py_str (PStr ''shop'') = Inr ''shop'' \<and> py_str (PInt 12) = Inr ''12''
   \<and> (\<exists>c1. ReportClient_init sample_tables sample_host
              (sample_args\<lparr>arg_application_name := PStr ''shop'', arg_application_version := PInt 12\<rparr>)
              class_logger = Inr (c1, class_logger)
          \<and> p_user_agent c1 = ''amazon-pay-sdk-python/2.7.1 (shop/12; Python/3.11.4; Linux/5.4.0)'')
   \<and> py_str (PInt huge_int)
       = Inl (ValueError ''Exceeds the limit (4300 digits) for integer string conversion; use sys.set_int_max_str_digits() to increase the limit'')
   \<and> ReportClient_init sample_tables sample_host
        (sample_args\<lparr>arg_application_name := PInt huge_int, arg_application_version := PNone\<rparr>)
        class_logger
       = Inl (ValueError ''Exceeds the limit (4300 digits) for integer string conversion; use sys.set_int_max_str_digits() to increase the limit'')"
proof -
  have ev: "py_str (PInt 3) = Inr ''3''" "py_str (PInt 11) = Inr ''11''" "py_str (PInt 4) = Inr ''4''"
    "py_str (PInt 12) = Inr ''12''" "py_str (PStr ''shop'') = Inr ''shop''"
    by (simp_all add: dec.simps digit_char_def int_max_str_digits_def)
  have vi: "take 3 (version_info sample_host) = [PInt 3, PInt 11, PInt 4]"
    by (simp add: sample_host_def)
  have strs: "strs = [''3'', ''11'', ''4'']"
    if "list_all2 (\<lambda>v s. py_str v = Inr s) (take 3 (version_info sample_host)) strs" for strs
    using that unfolding vi by (auto simp: list_all2_Cons1 ev simp del: py_str.simps)
  have hv: "platform_system sample_host = ''Linux''" "platform_release sample_host = ''5.4.0''"
    "ver_application_version sample_tables = ''2.7.1''"
    by (simp_all add: sample_host_def sample_tables_def)
  have ap: "app_name_and_ver (arg_application_name sample_args) (arg_application_version sample_args)
      = Inr []"
    by (simp add: app_name_and_ver_def sample_args_def default_args_def)
  note t1 = C7_user_agent [OF sample_client_constructed, where n = "PStr ''shop''" and v = "PInt 12"
      and sn = "''shop''" and sv = "''12''"]
  note t2 = C7_user_agent [OF sample_client_constructed, where n = "PInt huge_int" and v = PNone
      and e = "ValueError ''Exceeds the limit (4300 digits) for integer string conversion; use sys.set_int_max_str_digits() to increase the limit''"]
  from t1 obtain strs app where
    s: "list_all2 (\<lambda>v s. py_str v = Inr s) (take 3 (version_info sample_host)) strs"
    and a: "app_name_and_ver (arg_application_name sample_args) (arg_application_version sample_args)
              = Inr app"
    and ua: "p_user_agent sample_client
              = ''amazon-pay-sdk-python/'' @ ver_application_version sample_tables @ '' ('' @ app
                  @ ''Python/'' @ join ''.'' strs @ ''; '' @ platform_system sample_host @ ''/''
                  @ platform_release sample_host @ '')''"
    and s1: "sublist (join ''.'' strs) (p_user_agent sample_client)"
    and s2: "sublist (platform_system sample_host) (p_user_agent sample_client)"
    by blast
  have j: "join ''.'' strs = ''3.11.4''" using strs [OF s] by simp
  have app: "app = []" using a ap by simp
  have 1: "p_user_agent sample_client = ''amazon-pay-sdk-python/2.7.1 (Python/3.11.4; Linux/5.4.0)''"
    using ua by (simp add: j app hv)
  have 2: "sublist ''3.11.4'' (p_user_agent sample_client)" using s1 by (simp only: j)
  have 3: "sublist ''Linux'' (p_user_agent sample_client)" using s2 by (simp only: hv)
  from t1 ev obtain c1 strs1 where
    i1: "ReportClient_init sample_tables sample_host
              (sample_args\<lparr>arg_application_name := PStr ''shop'', arg_application_version := PInt 12\<rparr>)
              class_logger = Inr (c1, class_logger)"
    and s': "list_all2 (\<lambda>v s. py_str v = Inr s) (take 3 (version_info sample_host)) strs1"
    and ua1: "p_user_agent c1
                  = ''amazon-pay-sdk-python/'' @ ver_application_version sample_tables @ '' (''
                      @ (if PStr ''shop'' = PStr [] \<or> PStr ''shop'' = PNone
                         then (if PInt 12 = PStr [] \<or> PInt 12 = PNone then [] else ''12'' @ ''; '')
                         else (if PInt 12 = PStr [] \<or> PInt 12 = PNone then ''shop'' @ ''; ''
                               else ''shop'' @ ''/'' @ ''12'' @ ''; ''))
                      @ ''Python/'' @ join ''.'' strs1 @ ''; '' @ platform_system sample_host @ ''/''
                      @ platform_release sample_host @ '')''"
    by blast
  have j1: "join ''.'' strs1 = ''3.11.4''" using strs [OF s'] by simp
  have 4: "\<exists>c1. ReportClient_init sample_tables sample_host
              (sample_args\<lparr>arg_application_name := PStr ''shop'', arg_application_version := PInt 12\<rparr>)
              class_logger = Inr (c1, class_logger)
          \<and> p_user_agent c1 = ''amazon-pay-sdk-python/2.7.1 (shop/12; Python/3.11.4; Linux/5.4.0)''"
    using i1 ua1 by (simp add: j1 hv)
  have 5: "ReportClient_init sample_tables sample_host
        (sample_args\<lparr>arg_application_name := PInt huge_int, arg_application_version := PNone\<rparr>)
        class_logger
       = Inl (ValueError ''Exceeds the limit (4300 digits) for integer string conversion; use sys.set_int_max_str_digits() to increase the limit'')"
    using t2 py_str_huge_int by blast
  show ?thesis
    using sample_client_constructed vi 1 2 3 ev(4) ev(5) 4 py_str_huge_int 5 by blast
qed

section \<open>Logging\<close>

text \<open>
  Claim C10: a configuration whose five values resolve and whose region is in the table
  still fails to construct when \<^verbatim>\<open>log_enabled\<close> is truthy and \<^verbatim>\<open>log_level\<close> is
  left at \<^verbatim>\<open>None\<close>: line 134 calls \<^verbatim>\<open>upper()\<close> on \<^verbatim>\<open>None\<close>, which raises
  an attribute error.
\<close>

theorem C10_logging_needs_level:
  assumes "resolve_params a (environ H) env_param_map = Inr [ak, sk, mid, reg, cc]"
    and "lookup_region T reg = Inr h"
    and "truthy (arg_log_enabled a)"
    and "arg_log_level a = PNone"
  shows "ReportClient_init T H a lg = Inl (AttributeError ''NoneType'' ''upper'')"
proof -
  have "arg_log_enabled a \<noteq> PBool False" using assms(3) by auto
  then have "configure_logging H (arg_log_enabled a) (arg_log_file_name a) (arg_log_level a) lg
      = Inl (AttributeError ''NoneType'' ''upper'')"
    using assms(4) by (simp add: configure_logging_def)
  then show ?thesis
    using assms(1,2) by (simp add: ReportClient_init_def Let_def)
qed

text \<open>
  The sample arguments construct a client; with \<^verbatim>\<open>log_enabled=True\<close> added and no
  log level they raise the attribute error.
\<close>

theorem C10_witness:
  "resolve_params (sample_args\<lparr>arg_log_enabled := PBool True\<rparr>) (environ sample_host) env_param_map
     = Inr [PStr ''AKIA'', PStr ''secret'', PStr ''M1'', PStr ''na'', PStr ''USD'']
   \<and> lookup_region sample_tables (PStr ''na'') = Inr ''mws.amazonservices.com''
   \<and> truthy (arg_log_enabled (sample_args\<lparr>arg_log_enabled := PBool True\<rparr>))
   \<and> arg_log_level (sample_args\<lparr>arg_log_enabled := PBool True\<rparr>) = PNone
   \<and> ReportClient_init sample_tables sample_host (sample_args\<lparr>arg_log_enabled := PBool True\<rparr>) class_logger
       = Inl (AttributeError ''NoneType'' ''upper'')
   \<and> ReportClient_init sample_tables sample_host sample_args class_logger
       = Inr (sample_client, class_logger)"
proof -
  have r: "resolve_params (sample_args\<lparr>arg_log_enabled := PBool True\<rparr>) (environ sample_host) env_param_map
     = Inr [PStr ''AKIA'', PStr ''secret'', PStr ''M1'', PStr ''na'', PStr ''USD'']"
    by (simp add: init_eval)
  have l: "lookup_region sample_tables (PStr ''na'') = Inr ''mws.amazonservices.com''"
    by (simp add: sample_tables_def)
  have t: "truthy (arg_log_enabled (sample_args\<lparr>arg_log_enabled := PBool True\<rparr>))" by simp
  have n: "arg_log_level (sample_args\<lparr>arg_log_enabled := PBool True\<rparr>) = PNone"
    by (simp add: sample_args_def default_args_def)
  show ?thesis
    using C10_logging_needs_level [OF r l t n, of class_logger] r l t n sample_client_constructed
    by simp
qed

section \<open>Operations and dispatch\<close>

text \<open>
  \<^verbatim>\<open>_operation\<close> in one equation: the result is the response of the request as
  \<^verbatim>\<open>send_post\<close> leaves it, or the exception \<^verbatim>\<open>send_post\<close> raises; the client is
  returned as it was; one construction and one \<^verbatim>\<open>send_post\<close> are recorded.
\<close>

lemma operation_unfold:
  "operation RC self ps opts tr =
     (case send_post RC (new_request RC (case opts of None \<Rightarrow> ps | Some os \<Rightarrow> merge_options ps os)
                            (request_config self)) of
        Inl e \<Rightarrow> Inl e
      | Inr q \<Rightarrow> Inr (response RC q),
      self,
      tr @ [Constructed (case opts of None \<Rightarrow> ps | Some os \<Rightarrow> merge_options ps os) (request_config self),
            SendPost (new_request RC (case opts of None \<Rightarrow> ps | Some os \<Rightarrow> merge_options ps os)
                        (request_config self))])"
  by (simp add: operation_def Let_def split: sum.splits)

lemma operation_self: "fst (snd (operation RC self ps opts tr)) = self"
  by (simp add: operation_unfold)

text \<open>
  A key of \<^verbatim>\<open>options\<close> whose value is \<^verbatim>\<open>None\<close> leaves the parameters as they
  are; any other value is stored under its key.
\<close>

lemma map_of_merge_options:
  "distinct (map fst opts) \<Longrightarrow>
   map_of (merge_options ps opts) k =
     (case map_of opts k of
        None \<Rightarrow> map_of ps k
      | Some v \<Rightarrow> if v = PNone then map_of ps k else Some v)"
proof (induction opts arbitrary: ps)
  case Nil
  then show ?case by simp
next
  case (Cons ov opts)
  obtain opt v where ov: "ov = (opt, v)" by (cases ov)
  have d: "distinct (map fst opts)" and nin: "opt \<notin> fst ` set opts"
    using Cons.prems ov by auto
  have none: "map_of opts opt = None"
    using nin by (simp add: map_of_eq_None_iff)
  show ?case
  proof (cases "v = PNone")
    case True
    then show ?thesis using Cons.IH [OF d, of ps] ov none by (auto split: option.splits)
  next
    case False
    then show ?thesis
      using Cons.IH [OF d, of "AList.update opt v ps"] ov none
      by (auto simp: update_conv' split: option.splits)
  qed
qed

text \<open>
  The keys of the optionals of the three operations are distinct and differ from the
  fixed keys, so merging appends the optionals whose value is not \<^verbatim>\<open>None\<close>, in
  order.
\<close>

lemma update_append:
  "k \<notin> fst ` set ps \<Longrightarrow> AList.update k v ps = ps @ [(k, v)]"
  by (induction ps) auto

lemma merge_options_append:
  "distinct (map fst opts) \<Longrightarrow> fst ` set opts \<inter> fst ` set ps = {} \<Longrightarrow>
   merge_options ps opts = ps @ filter (\<lambda>kv. snd kv \<noteq> PNone) opts"
proof (induction opts arbitrary: ps)
  case Nil
  then show ?case by simp
next
  case (Cons ov opts)
  obtain opt v where ov: "ov = (opt, v)" by (cases ov)
  have d: "distinct (map fst opts)" and nin: "opt \<notin> fst ` set opts" and nps: "opt \<notin> fst ` set ps"
    and disj: "fst ` set opts \<inter> fst ` set ps = {}"
    using Cons.prems ov by auto
  show ?case
  proof (cases "v = PNone")
    case True
    then show ?thesis using Cons.IH [OF d disj] ov by simp
  next
    case False
    have "fst ` set opts \<inter> fst ` set (ps @ [(opt, v)]) = {}"
      using disj nin by auto
    then have "merge_options (ps @ [(opt, v)]) opts
        = (ps @ [(opt, v)]) @ filter (\<lambda>kv. snd kv \<noteq> PNone) opts"
      by (rule Cons.IH [OF d])
    then show ?thesis using False ov nps by (simp add: update_append)
  qed
qed

lemma operation_explicit:
  assumes "cfg = request_config self"
    and "sent = (case opts of None \<Rightarrow> ps | Some os \<Rightarrow> merge_options ps os)"
  shows "operation RC self ps opts tr =
     (case send_post RC (new_request RC sent cfg) of
        Inl e \<Rightarrow> Inl e
      | Inr q \<Rightarrow> Inr (response RC q),
      self,
      tr @ [Constructed sent cfg, SendPost (new_request RC sent cfg)])"
  unfolding assms by (rule operation_unfold)

text \<open>
  Claim C8: setting \<^verbatim>\<open>sandbox\<close> changes the flag and the endpoint attribute only;
  the access key, secret key, merchant id, region, region host and code, currency code,
  throttle flag, application name and version, API name and version, library version,
  user agent and headers are as before; and each of the three public operations returns
  the client as it received it.
\<close>

theorem C8_frame:
  "mws_access_key (sandbox_setter c v) = mws_access_key c
   \<and> mws_secret_key (sandbox_setter c v) = mws_secret_key c
   \<and> merchant_id (sandbox_setter c v) = merchant_id c
   \<and> region (sandbox_setter c v) = region c
   \<and> currency_code (sandbox_setter c v) = currency_code c
   \<and> p_region (sandbox_setter c v) = p_region c
   \<and> p_region_code (sandbox_setter c v) = p_region_code c
   \<and> handle_throttle (sandbox_setter c v) = handle_throttle c
   \<and> application_name (sandbox_setter c v) = application_name c
   \<and> application_version (sandbox_setter c v) = application_version c
   \<and> p_api_version (sandbox_setter c v) = p_api_version c
   \<and> p_api_name (sandbox_setter c v) = p_api_name c
   \<and> p_application_library_version (sandbox_setter c v) = p_application_library_version c
   \<and> p_user_agent (sandbox_setter c v) = p_user_agent c
   \<and> p_headers (sandbox_setter c v) = p_headers c
   \<and> sandbox_setter c v
       = c\<lparr> p_sandbox := v,
            p_mws_endpoint :=
              PStr (''https://'' @ p_region c @ ''/'' @ p_api_name c @ ''/'' @ p_api_version c) \<rparr>
   \<and> fst (snd (get_report_list RC c available_from available_to acknowledged report_type_list
                  seller token tr)) = c
   \<and> fst (snd (get_report RC c report_id seller token tr)) = c
   \<and> fst (snd (update_report_acknowledgements RC c report_id acknowledged seller token tr)) = c"
proof -
  have setter: "sandbox_setter c v
       = c\<lparr> p_sandbox := v,
            p_mws_endpoint :=
              PStr (''https://'' @ p_region c @ ''/'' @ p_api_name c @ ''/'' @ p_api_version c) \<rparr>"
    by (simp add: sandbox_setter_def set_endpoint_def)
  have ops:
    "fst (snd (get_report_list RC c available_from available_to acknowledged report_type_list
                  seller token tr)) = c"
    "fst (snd (get_report RC c report_id seller token tr)) = c"
    "fst (snd (update_report_acknowledgements RC c report_id acknowledged seller token tr)) = c"
    unfolding get_report_list_def get_report_def update_report_acknowledgements_def Let_def
    by (rule operation_self)+
  show ?thesis
    unfolding setter using ops by simp
qed

text \<open>The setter and an operation on the sample client.\<close>

theorem C8_witness:
  "sandbox_setter sample_client (PBool True)
     = sample_client\<lparr> p_sandbox := PBool True,
         p_mws_endpoint := PStr ''https://mws.amazonservices.com/Reports/2009-01-01'' \<rparr>
   \<and> p_headers (sandbox_setter sample_client (PBool True)) = p_headers sample_client
   \<and> fst (snd (get_report sample_request_class sample_client (PInt 7) PNone PNone [])) = sample_client"
  using C8_frame [where c = sample_client and v = "PBool True" and RC = sample_request_class
      and report_id = "PInt 7" and seller = PNone and token = PNone and tr = "[]"]
  by (simp add: sample_client_def)

text \<open>
  Claim C9: for every invocation of each of the three public operations, the dispatch
  routine constructs one request, from the merged parameter mapping (the fixed
  parameters of the operation followed by its optionals that are not \<^verbatim>\<open>None\<close>) and
  from the config mapping that holds the client's values under exactly the keys
  \<^verbatim>\<open>mws_access_key\<close>, \<^verbatim>\<open>mws_secret_key\<close>, \<^verbatim>\<open>api_version\<close>,
  \<^verbatim>\<open>merchant_id\<close>, \<^verbatim>\<open>mws_endpoint\<close>, \<^verbatim>\<open>headers\<close> and
  \<^verbatim>\<open>handle_throttle\<close>, and neither \<^verbatim>\<open>currency_code\<close> nor \<^verbatim>\<open>region\<close>; it
  calls \<^verbatim>\<open>send_post\<close> once on that request and returns the response attribute of
  the request as the call leaves it (an exception of \<^verbatim>\<open>send_post\<close> propagates).
\<close>

theorem C9_dispatch:
  assumes cfg: "cfg =
     [(''mws_access_key'', CVal (mws_access_key self)),
      (''mws_secret_key'', CVal (mws_secret_key self)),
      (''api_version'', CVal (PStr (p_api_version self))),
      (''merchant_id'', CVal (merchant_id self)),
      (''mws_endpoint'', CVal (p_mws_endpoint self)),
      (''headers'', CDict (p_headers self)),
      (''handle_throttle'', CVal (handle_throttle self))]"
    and list_ps: "list_ps =
     (''Action'', PStr ''GetReportList'') #
     filter (\<lambda>kv. snd kv \<noteq> PNone)
       [(''AvailableFromDate'', available_from), (''AvailableToDate'', available_to),
        (''Acknowledged'', acknowledged), (''ReportTypeList.Type.1'', report_type_list),
        (''SellerId'', seller), (''MWSAuthToken'', token)]"
    and get_ps: "get_ps =
     [(''Action'', PStr ''GetReport''), (''ReportId'', report_id)]
     @ filter (\<lambda>kv. snd kv \<noteq> PNone) [(''SellerId'', seller), (''MWSAuthToken'', token)]"
    and upd_ps: "upd_ps =
     [(''Action'', PStr ''UpdateReportAcknowledgements''), (''ReportIdList.Id.1'', report_id),
      (''Acknowledged'', acknowledged)]
     @ filter (\<lambda>kv. snd kv \<noteq> PNone) [(''SellerId'', seller), (''MWSAuthToken'', token)]"
  shows "request_config self = cfg
   \<and> map fst cfg =
       [''mws_access_key'', ''mws_secret_key'', ''api_version'', ''merchant_id'', ''mws_endpoint'',
        ''headers'', ''handle_throttle'']
   \<and> ''currency_code'' \<notin> set (map fst cfg)
   \<and> ''region'' \<notin> set (map fst cfg)
   \<and> get_report_list RC self available_from available_to acknowledged report_type_list seller token tr =
       (case send_post RC (new_request RC list_ps cfg) of
          Inl e \<Rightarrow> Inl e
        | Inr q \<Rightarrow> Inr (response RC q),
        self,
        tr @ [Constructed list_ps cfg, SendPost (new_request RC list_ps cfg)])
   \<and> get_report RC self report_id seller token tr =
       (case send_post RC (new_request RC get_ps cfg) of
          Inl e \<Rightarrow> Inl e
        | Inr q \<Rightarrow> Inr (response RC q),
        self,
        tr @ [Constructed get_ps cfg, SendPost (new_request RC get_ps cfg)])
   \<and> update_report_acknowledgements RC self report_id acknowledged seller token tr =
       (case send_post RC (new_request RC upd_ps cfg) of
          Inl e \<Rightarrow> Inl e
        | Inr q \<Rightarrow> Inr (response RC q),
        self,
        tr @ [Constructed upd_ps cfg, SendPost (new_request RC upd_ps cfg)])
   \<and> operation RC self ps None tr =
       (case send_post RC (new_request RC ps cfg) of
          Inl e \<Rightarrow> Inl e
        | Inr q \<Rightarrow> Inr (response RC q),
        self,
        tr @ [Constructed ps cfg, SendPost (new_request RC ps cfg)])"
proof -
  have c: "cfg = request_config self"
    unfolding cfg by (simp add: request_config_def)
  have keys: "map fst cfg =
       [''mws_access_key'', ''mws_secret_key'', ''api_version'', ''merchant_id'', ''mws_endpoint'',
        ''headers'', ''handle_throttle'']"
    unfolding cfg by simp
  have nk: "''currency_code'' \<notin> set (map fst cfg)" "''region'' \<notin> set (map fst cfg)"
    unfolding keys by simp_all
  have ml: "list_ps = merge_options [(''Action'', PStr ''GetReportList'')]
       [(''AvailableFromDate'', available_from), (''AvailableToDate'', available_to),
        (''Acknowledged'', acknowledged), (''ReportTypeList.Type.1'', report_type_list),
        (''SellerId'', seller), (''MWSAuthToken'', token)]"
    unfolding list_ps by (subst merge_options_append) simp_all
  have mg: "get_ps = merge_options [(''Action'', PStr ''GetReport''), (''ReportId'', report_id)]
       [(''SellerId'', seller), (''MWSAuthToken'', token)]"
    unfolding get_ps by (subst merge_options_append) simp_all
  have mu: "upd_ps = merge_options
       [(''Action'', PStr ''UpdateReportAcknowledgements''), (''ReportIdList.Id.1'', report_id),
        (''Acknowledged'', acknowledged)]
       [(''SellerId'', seller), (''MWSAuthToken'', token)]"
    unfolding upd_ps by (subst merge_options_append) simp_all
  have l: "get_report_list RC self available_from available_to acknowledged report_type_list seller token tr =
       (case send_post RC (new_request RC list_ps cfg) of
          Inl e \<Rightarrow> Inl e
        | Inr q \<Rightarrow> Inr (response RC q),
        self,
        tr @ [Constructed list_ps cfg, SendPost (new_request RC list_ps cfg)])"
    unfolding get_report_list_def Let_def by (rule operation_explicit [OF c]) (simp add: ml)
  have g: "get_report RC self report_id seller token tr =
       (case send_post RC (new_request RC get_ps cfg) of
          Inl e \<Rightarrow> Inl e
        | Inr q \<Rightarrow> Inr (response RC q),
        self,
        tr @ [Constructed get_ps cfg, SendPost (new_request RC get_ps cfg)])"
    unfolding get_report_def Let_def by (rule operation_explicit [OF c]) (simp add: mg)
  have u: "update_report_acknowledgements RC self report_id acknowledged seller token tr =
       (case send_post RC (new_request RC upd_ps cfg) of
          Inl e \<Rightarrow> Inl e
        | Inr q \<Rightarrow> Inr (response RC q),
        self,
        tr @ [Constructed upd_ps cfg, SendPost (new_request RC upd_ps cfg)])"
    unfolding update_report_acknowledgements_def Let_def
    by (rule operation_explicit [OF c]) (simp add: mu)
  have n: "operation RC self ps None tr =
       (case send_post RC (new_request RC ps cfg) of
          Inl e \<Rightarrow> Inl e
        | Inr q \<Rightarrow> Inr (response RC q),
        self,
        tr @ [Constructed ps cfg, SendPost (new_request RC ps cfg)])"
    by (rule operation_explicit [OF c]) simp
  show ?thesis using c [symmetric] keys nk l g u n by blast
qed

text \<open>
  \<^verbatim>\<open>get_report(7, mws_auth_token='tok')\<close> on the sample client: the config mapping,
  one request with the merged parameters, one \<^verbatim>\<open>send_post\<close>, and the stored
  response returned.
\<close>

theorem C9_witness:
  "request_config sample_client =
     [(''mws_access_key'', CVal (PStr ''AKIA'')),
      (''mws_secret_key'', CVal (PStr ''secret'')),
      (''api_version'', CVal (PStr ''2009-01-01'')),
      (''merchant_id'', CVal (PStr ''M1'')),
      (''mws_endpoint'', CVal (PStr ''https://mws.amazonservices.com/Reports/2009-01-01'')),
      (''headers'', CDict [(''Content-Type'', ''application/x-www-form-urlencoded''),
                           (''User-Agent'', ''amazon-pay-sdk-python/2.7.1 (Python/3.11.4; Linux/5.4.0)'')]),
      (''handle_throttle'', CVal (PBool True))]
   \<and> get_report sample_request_class sample_client (PInt 7) PNone (PStr ''tok'') [] =
     (Inr (Some ''<ok/>''), sample_client,
      [Constructed [(''Action'', PStr ''GetReport''), (''ReportId'', PInt 7), (''MWSAuthToken'', PStr ''tok'')]
         (request_config sample_client),
       SendPost ([(''Action'', PStr ''GetReport''), (''ReportId'', PInt 7), (''MWSAuthToken'', PStr ''tok'')],
                 request_config sample_client, None)])"
proof -
  note t = C9_dispatch [OF refl refl refl refl, where RC = sample_request_class
      and self = sample_client and report_id = "PInt 7" and seller = PNone and token = "PStr ''tok''"
      and tr = "[]"]
  from t have c: "request_config sample_client =
     [(''mws_access_key'', CVal (mws_access_key sample_client)),
      (''mws_secret_key'', CVal (mws_secret_key sample_client)),
      (''api_version'', CVal (PStr (p_api_version sample_client))),
      (''merchant_id'', CVal (merchant_id sample_client)),
      (''mws_endpoint'', CVal (p_mws_endpoint sample_client)),
      (''headers'', CDict (p_headers sample_client)),
      (''handle_throttle'', CVal (handle_throttle sample_client))]"
    by blast
  from t have g: "get_report sample_request_class sample_client (PInt 7) PNone (PStr ''tok'') [] =
       (case send_post sample_request_class (new_request sample_request_class
               ([(''Action'', PStr ''GetReport''), (''ReportId'', PInt 7)]
                  @ filter (\<lambda>kv. snd kv \<noteq> PNone) [(''SellerId'', PNone), (''MWSAuthToken'', PStr ''tok'')])
               [(''mws_access_key'', CVal (mws_access_key sample_client)),
                (''mws_secret_key'', CVal (mws_secret_key sample_client)),
                (''api_version'', CVal (PStr (p_api_version sample_client))),
                (''merchant_id'', CVal (merchant_id sample_client)),
                (''mws_endpoint'', CVal (p_mws_endpoint sample_client)),
                (''headers'', CDict (p_headers sample_client)),
                (''handle_throttle'', CVal (handle_throttle sample_client))]) of
          Inl e \<Rightarrow> Inl e
        | Inr q \<Rightarrow> Inr (response sample_request_class q),
        sample_client,
        [] @ [Constructed ([(''Action'', PStr ''GetReport''), (''ReportId'', PInt 7)]
                  @ filter (\<lambda>kv. snd kv \<noteq> PNone) [(''SellerId'', PNone), (''MWSAuthToken'', PStr ''tok'')])
               [(''mws_access_key'', CVal (mws_access_key sample_client)),
                (''mws_secret_key'', CVal (mws_secret_key sample_client)),
                (''api_version'', CVal (PStr (p_api_version sample_client))),
                (''merchant_id'', CVal (merchant_id sample_client)),
                (''mws_endpoint'', CVal (p_mws_endpoint sample_client)),
                (''headers'', CDict (p_headers sample_client)),
                (''handle_throttle'', CVal (handle_throttle sample_client))],
              SendPost (new_request sample_request_class
               ([(''Action'', PStr ''GetReport''), (''ReportId'', PInt 7)]
                  @ filter (\<lambda>kv. snd kv \<noteq> PNone) [(''SellerId'', PNone), (''MWSAuthToken'', PStr ''tok'')])
               [(''mws_access_key'', CVal (mws_access_key sample_client)),
                (''mws_secret_key'', CVal (mws_secret_key sample_client)),
                (''api_version'', CVal (PStr (p_api_version sample_client))),
                (''merchant_id'', CVal (merchant_id sample_client)),
                (''mws_endpoint'', CVal (p_mws_endpoint sample_client)),
                (''headers'', CDict (p_headers sample_client)),
                (''handle_throttle'', CVal (handle_throttle sample_client))])])"
    by blast
  have 1: "request_config sample_client =
     [(''mws_access_key'', CVal (PStr ''AKIA'')),
      (''mws_secret_key'', CVal (PStr ''secret'')),
      (''api_version'', CVal (PStr ''2009-01-01'')),
      (''merchant_id'', CVal (PStr ''M1'')),
      (''mws_endpoint'', CVal (PStr ''https://mws.amazonservices.com/Reports/2009-01-01'')),
      (''headers'', CDict [(''Content-Type'', ''application/x-www-form-urlencoded''),
                           (''User-Agent'', ''amazon-pay-sdk-python/2.7.1 (Python/3.11.4; Linux/5.4.0)'')]),
      (''handle_throttle'', CVal (PBool True))]"
    unfolding c by (simp add: sample_client_def)
  have 2: "get_report sample_request_class sample_client (PInt 7) PNone (PStr ''tok'') [] =
     (Inr (Some ''<ok/>''), sample_client,
      [Constructed [(''Action'', PStr ''GetReport''), (''ReportId'', PInt 7), (''MWSAuthToken'', PStr ''tok'')]
         (request_config sample_client),
       SendPost ([(''Action'', PStr ''GetReport''), (''ReportId'', PInt 7), (''MWSAuthToken'', PStr ''tok'')],
                 request_config sample_client, None)])"
    unfolding g c by (simp add: sample_request_class_def)
  show ?thesis using 1 2 by blast
qed

text \<open>
  Claim C2 says that every optional parameter whose value is \<^verbatim>\<open>None\<close> is left out of
  the outgoing parameter mapping. \<^verbatim>\<open>update_report_acknowledgements\<close> documents
  \<^verbatim>\<open>acknowledged\<close> as optional with default \<^verbatim>\<open>None\<close>, but puts it among the
  fixed parameters (line 268) and not among the optionals: called with the report id
  alone, it sends \<^verbatim>\<open>Acknowledged\<close> with the value \<^verbatim>\<open>None\<close>.
  \<^verbatim>\<open>get_report_list\<close>, which lists \<^verbatim>\<open>Acknowledged\<close> among its optionals, leaves
  it out.
\<close>

theorem C2_acknowledged_none_is_sent:
  "sent_params (snd (snd (update_report_acknowledgements sample_request_class sample_client
                            (PInt 1) PNone PNone PNone [])))
     = Some [(''Action'', PStr ''UpdateReportAcknowledgements''), (''ReportIdList.Id.1'', PInt 1),
             (''Acknowledged'', PNone)]
   \<and> sent_params (snd (snd (get_report_list sample_request_class sample_client
                            PNone PNone PNone PNone PNone PNone [])))
     = Some [(''Action'', PStr ''GetReportList'')]"
  by (simp add: update_report_acknowledgements_def get_report_list_def operation_def
      sample_request_class_def Let_def)

end
